theory Spec2Isabelle
  imports Main "HOL-Library.Word"
begin

section \<open>Shared types\<close>

text \<open>
  Slots, epochs and subnet numbers are Go \<^verbatim>\<open>uint64\<close> values: 64-bit words, on which
  \<open>+\<close>, \<open>-\<close> and \<open>*\<close> wrap around and \<open><\<close> is the unsigned order.
\<close>

type_synonym u64 = "64 word"
type_synonym bytes = "8 word list"

text \<open>
  A Go \<^verbatim>\<open>int\<close> on the 64-bit platforms the node runs on: a 64-bit value in two's
  complement, read by \<open>sint\<close>, on which \<open>*\<close> wraps around.
\<close>

type_synonym goint = "64 word"

text \<open>
  The errors of both packages. \<open>ErrExternal\<close> is an error handed back by a collaborator
  (transport, encoder, peer registry), \<open>ErrWrap\<close> is \<^verbatim>\<open>errors.Wrap(err, msg)\<close>, and
  \<open>Panic\<close> is a Go run-time panic (integer division by zero, \<^verbatim>\<open>rand.Intn\<close> with a
  non-positive bound).
\<close>

datatype error =
    ErrSlotIsTooHigh
  | ErrNoPeersAvailable
  | ErrInvalidRange
  | ErrStartSlotOverflow
  | ErrMessageNotMapped
  | ErrFailedToFindPeers
  | ErrExternal string
  | ErrWrap error string
  | Panic string

section \<open>Package initialsync: blocks_fetcher_utils.go\<close>

subsection \<open>Configuration and collaborators\<close>

text \<open>
  \<open>SlotsPerEpoch\<close>, \<open>SecondsPerSlot\<close> and \<open>MaxPeersToSync\<close> are fields of
  \<^verbatim>\<open>params.BeaconConfig()\<close>, \<open>MinimumSyncPeers\<close> is \<^verbatim>\<open>flags.Get().MinimumSyncPeers\<close>, and
  \<open>nonSkippedSlotsFullSearchEpochs\<close> is the package constant of that name, whose
  declaration is outside the source at hand; all of them are parameters here.
\<close>

record config =
  SlotsPerEpoch :: u64
  SecondsPerSlot :: u64
  MaxPeersToSync :: goint
  MinimumSyncPeers :: goint
  nonSkippedSlotsFullSearchEpochs :: u64

record BeaconBlocksByRangeRequest =
  StartSlot :: u64
  Count :: u64
  Step :: u64

record BeaconBlock =
  Slot :: u64

record SignedBeaconBlock =
  Block :: BeaconBlock

datatype syncMode = modeStopOnFinalizedEpoch | modeNonConstrained

text \<open>
  The log of block-range requests issued so far, oldest first. It is the only state
  \<^verbatim>\<open>nonSkippedSlotAfter\<close> changes that a caller or a peer can observe.
\<close>

type_synonym 'p requests = "('p \<times> BeaconBlocksByRangeRequest) list"

text \<open>
  The fetcher with its collaborators. The chain and the peer registry are read-only
  for the duration of a call. \<open>requestBlocks\<close> and \<open>rand_Intn\<close> answer as a function of
  the requests already issued, so a peer may answer the same request differently each
  time, and every sequence of answers is the behaviour of some fetcher value.
  \<open>filterPeers\<close> stands for \<^verbatim>\<open>f.filterPeers(ctx, peers, peersPercentagePerRequest)\<close>.
\<close>

record 'p blocksFetcher =
  mode :: syncMode
  chain_FinalizedCheckpt_Epoch :: u64
  chain_HeadSlot :: u64
  peers_BestFinalized :: "goint \<Rightarrow> u64 \<Rightarrow> u64 \<times> 'p list"
  peers_BestNonFinalized :: "goint \<Rightarrow> u64 \<Rightarrow> u64 \<times> 'p list"
  filterPeers :: "'p list \<Rightarrow> error + 'p list"
  requestBlocks :: "'p requests \<Rightarrow> BeaconBlocksByRangeRequest \<Rightarrow> 'p \<Rightarrow> error + SignedBeaconBlock list"
  rand_Intn :: "'p requests \<Rightarrow> nat \<Rightarrow> nat"

text \<open>
  Modelled from the spec: \<^verbatim>\<open>helpers.SlotToEpoch\<close> is called by the source but its body is
  missing from it. The spec gives \<open>Epoch = Slot / SlotsPerEpoch\<close>; Go's integer division
  panics on a zero divisor.
\<close>

definition helpers_SlotToEpoch :: "config \<Rightarrow> u64 \<Rightarrow> error + u64" where
  "helpers_SlotToEpoch cfg slot =
     (if SlotsPerEpoch cfg = 0 then Inl (Panic ''integer divide by zero'')
      else Inr (slot div SlotsPerEpoch cfg))"

text \<open>
  Modelled from the spec: \<^verbatim>\<open>helpers.StartSlot\<close> is called by the source but its body is
  missing from it. The spec has epoch 10 start at slot 320 for 32 slots per epoch,
  the first slot of an epoch. The call sites show it returning an error next to the
  slot; the only way the product can go wrong is by not fitting 64 bits, so that is
  when the model fails.
\<close>

definition helpers_StartSlot :: "config \<Rightarrow> u64 \<Rightarrow> error + u64" where
  "helpers_StartSlot cfg epoch =
     (if unat epoch * unat (SlotsPerEpoch cfg) < 2 ^ 64
      then Inr (epoch * SlotsPerEpoch cfg)
      else Inl ErrStartSlotOverflow)"

subsection \<open>calculateHeadAndTargetEpochs and bestNonFinalizedSlot\<close>

text \<open>
  Both functions return plain values in the source; the error of the model is the
  panic of \<^verbatim>\<open>SlotToEpoch\<close> for zero slots per epoch. The minimum peer counts are Go
  \<^verbatim>\<open>int\<close>s, so the product \<^verbatim>\<open>MinimumSyncPeers*2\<close> of line 135 is a product of 64-bit words.
\<close>

definition calculateHeadAndTargetEpochs ::
  "config \<Rightarrow> 'p blocksFetcher \<Rightarrow> error + (u64 \<times> u64 \<times> 'p list)" where
  "calculateHeadAndTargetEpochs cfg f =
     (if mode f = modeStopOnFinalizedEpoch then
        (let headEpoch = chain_FinalizedCheckpt_Epoch f;
             (targetEpoch, peers) = peers_BestFinalized f (MaxPeersToSync cfg) headEpoch
         in Inr (headEpoch, targetEpoch, peers))
      else
        (case helpers_SlotToEpoch cfg (chain_HeadSlot f) of
           Inl err \<Rightarrow> Inl err
         | Inr headEpoch \<Rightarrow>
             (let (targetEpoch, peers) = peers_BestNonFinalized f (MinimumSyncPeers cfg) headEpoch
              in Inr (headEpoch, targetEpoch, peers))))"

definition bestNonFinalizedSlot :: "config \<Rightarrow> 'p blocksFetcher \<Rightarrow> error + u64" where
  "bestNonFinalizedSlot cfg f =
     (case helpers_SlotToEpoch cfg (chain_HeadSlot f) of
        Inl err \<Rightarrow> Inl err
      | Inr headEpoch \<Rightarrow>
          (let (targetEpoch, _) = peers_BestNonFinalized f (MinimumSyncPeers cfg * 2) headEpoch
           in Inr (targetEpoch * SlotsPerEpoch cfg)))"

subsection \<open>nonSkippedSlotAfter\<close>

text \<open>
  The closure \<^verbatim>\<open>fetch\<close> (lines 49-67). It reads the variable \<^verbatim>\<open>slot\<close> of the enclosing
  function at the time of the call, so the model passes the current value.
  \<open>firstSlotAfter\<close> is its loop over the returned blocks: the slot of the first block
  beyond \<open>slot\<close>, or 0 when there is none.
\<close>

fun firstSlotAfter :: "u64 \<Rightarrow> SignedBeaconBlock list \<Rightarrow> u64" where
  "firstSlotAfter slot [] = 0"
| "firstSlotAfter slot (block # blocks) =
     (if Slot (Block block) > slot then Slot (Block block) else firstSlotAfter slot blocks)"

definition fetch ::
  "'p blocksFetcher \<Rightarrow> u64 \<Rightarrow> 'p \<Rightarrow> u64 \<Rightarrow> u64 \<Rightarrow> u64 \<Rightarrow> 'p requests \<Rightarrow> (error + u64) \<times> 'p requests" where
  "fetch f slot pid start count step w =
     (let req = \<lparr>StartSlot = start, Count = count, Step = step\<rparr> in
      case requestBlocks f w req pid of
        Inl err \<Rightarrow> (Inl err, w @ [(pid, req)])
      | Inr blocks \<Rightarrow> (Inr (firstSlotAfter slot blocks), w @ [(pid, req)]))"

text \<open>
  A loop either makes the enclosing function return, or falls through with the values
  of the local variables it changed.
\<close>

datatype ('r, 'c) flow = Return 'r | Next 'c

text \<open>
  The dense stage (lines 72-81): one request of a whole epoch per iteration. The first
  argument bounds the number of iterations observed; \<open>None\<close> is a loop still running
  when the bound is reached. The local state carried on is \<^verbatim>\<open>pidInd\<close>.
\<close>

fun denseLoop ::
  "nat \<Rightarrow> config \<Rightarrow> 'p blocksFetcher \<Rightarrow> 'p list \<Rightarrow> u64 \<Rightarrow> u64 \<Rightarrow> u64 \<Rightarrow> nat \<Rightarrow> 'p requests
     \<Rightarrow> (error + u64, nat) flow option \<times> 'p requests" where
  "denseLoop 0 cfg f peers slot end ind pidInd w = (None, w)"
| "denseLoop (Suc n) cfg f peers slot end ind pidInd w =
     (if ind < end then
        (case fetch f slot (peers ! (pidInd mod length peers)) ind (SlotsPerEpoch cfg) 1 w of
           (Inl err, w') \<Rightarrow> (Some (Return (Inl err)), w')
         | (Inr nextSlot, w') \<Rightarrow>
             if nextSlot > slot then (Some (Return (Inr nextSlot)), w')
             else denseLoop n cfg f peers slot end (ind + SlotsPerEpoch cfg) (pidInd + 1) w')
      else (Some (Next pidInd), w))"

text \<open>
  The sparse stage (lines 90-101): one request of half an epoch's worth of slots, one
  per epoch, from a random offset. \<^verbatim>\<open>rand.Intn(n)\<close> panics unless \<open>0 < n\<close>, and
  \<^verbatim>\<open>int(slotsPerEpoch)\<close> is negative from \<open>2 ^ 63\<close> on. The loop hands on
  \<^verbatim>\<open>upperBoundSlot\<close> and \<^verbatim>\<open>pidInd\<close>.
\<close>

fun sparseLoop ::
  "nat \<Rightarrow> config \<Rightarrow> 'p blocksFetcher \<Rightarrow> 'p list \<Rightarrow> u64 \<Rightarrow> u64 \<Rightarrow> u64 \<Rightarrow> nat \<Rightarrow> 'p requests
     \<Rightarrow> (error + u64, u64 \<times> nat) flow option \<times> 'p requests" where
  "sparseLoop 0 cfg f peers slot upperBoundSlot ind pidInd w = (None, w)"
| "sparseLoop (Suc n) cfg f peers slot upperBoundSlot ind pidInd w =
     (let slotsPerEpoch = SlotsPerEpoch cfg in
      if ind < upperBoundSlot then
        (if slotsPerEpoch = 0 \<or> 2 ^ 63 \<le> slotsPerEpoch
         then (Some (Return (Inl (Panic ''invalid argument to Intn''))), w)
         else
           (let start = ind + of_nat (rand_Intn f w (unat slotsPerEpoch)) in
            case fetch f slot (peers ! (pidInd mod length peers)) start
                   (slotsPerEpoch div 2) slotsPerEpoch w of
              (Inl err, w') \<Rightarrow> (Some (Return (Inl err)), w')
            | (Inr nextSlot, w') \<Rightarrow>
                if nextSlot > slot \<and> upperBoundSlot \<ge> nextSlot
                then (Some (Next (nextSlot, pidInd + 1)), w')
                else sparseLoop n cfg f peers slot upperBoundSlot
                       (ind + (slotsPerEpoch * slotsPerEpoch) div 2) (pidInd + 1) w'))
      else (Some (Next (upperBoundSlot, pidInd)), w))"

text \<open>
  The exact stage (lines 103-122). \<open>backOff\<close> is the guarded subtraction of lines
  104-106, \<open>exactStart\<close> the start slot of the last request (line 107).
\<close>

definition backOff :: "config \<Rightarrow> u64 \<Rightarrow> u64" where
  "backOff cfg upperBoundSlot =
     (if upperBoundSlot > SlotsPerEpoch cfg then upperBoundSlot - SlotsPerEpoch cfg
      else upperBoundSlot)"

definition exactStart :: "config \<Rightarrow> u64 \<Rightarrow> error + u64" where
  "exactStart cfg upperBoundSlot =
     (case helpers_SlotToEpoch cfg (backOff cfg upperBoundSlot) of
        Inl err \<Rightarrow> Inl err
      | Inr epoch \<Rightarrow> helpers_StartSlot cfg epoch)"

definition exactStage ::
  "config \<Rightarrow> 'p blocksFetcher \<Rightarrow> 'p list \<Rightarrow> u64 \<Rightarrow> u64 \<Rightarrow> u64 \<Rightarrow> nat \<Rightarrow> 'p requests
     \<Rightarrow> (error + u64) \<times> 'p requests" where
  "exactStage cfg f peers slot targetEpoch upperBoundSlot pidInd w =
     (case exactStart cfg upperBoundSlot of
        Inl err \<Rightarrow> (Inl err, w)
      | Inr upperBoundSlot' \<Rightarrow>
          (case fetch f slot (peers ! (pidInd mod length peers)) upperBoundSlot'
                  (SlotsPerEpoch cfg * 2) 1 w of
             (Inl err, w') \<Rightarrow> (Inl err, w')
           | (Inr nextSlot, w') \<Rightarrow>
               (case helpers_StartSlot cfg (targetEpoch + 1) of
                  Inl err \<Rightarrow> (Inl err, w')
                | Inr s \<Rightarrow>
                    if nextSlot < slot \<or> s < nextSlot then (Inl ErrInvalidRange, w')
                    else (Inr nextSlot, w'))))"

text \<open>
  The search after the peers are chosen (lines 46-122): dense stage, then the
  reassignment of \<^verbatim>\<open>slot\<close> (line 85), the sparse stage and the exact stage.
\<close>

definition searchStages ::
  "nat \<Rightarrow> config \<Rightarrow> 'p blocksFetcher \<Rightarrow> 'p list \<Rightarrow> u64 \<Rightarrow> u64 \<Rightarrow> 'p requests
     \<Rightarrow> (error + u64) option \<times> 'p requests" where
  "searchStages fuel cfg f peers slot targetEpoch w =
     (let slotsPerEpoch = SlotsPerEpoch cfg;
          start = slot + 1;
          end = start + nonSkippedSlotsFullSearchEpochs cfg * slotsPerEpoch
      in case denseLoop fuel cfg f peers slot end start 0 w of
           (None, w1) \<Rightarrow> (None, w1)
         | (Some (Return r), w1) \<Rightarrow> (Some r, w1)
         | (Some (Next pidInd), w1) \<Rightarrow>
             (let slot' = slot + nonSkippedSlotsFullSearchEpochs cfg * slotsPerEpoch in
              case helpers_StartSlot cfg (targetEpoch + 1) of
                Inl err \<Rightarrow> (Some (Inl err), w1)
              | Inr upperBoundSlot \<Rightarrow>
                  (case sparseLoop fuel cfg f peers slot' upperBoundSlot (slot' + 1) pidInd w1 of
                     (None, w2) \<Rightarrow> (None, w2)
                   | (Some (Return r), w2) \<Rightarrow> (Some r, w2)
                   | (Some (Next (upperBoundSlot', pidInd')), w2) \<Rightarrow>
                       (case exactStage cfg f peers slot' targetEpoch upperBoundSlot' pidInd' w2 of
                          (r, w3) \<Rightarrow> (Some r, w3)))))"

text \<open>
  The whole function. The result is \<open>None\<close> when a loop is still running after \<open>fuel\<close>
  iterations, and otherwise the error or the slot returned; the second component is
  the request log at that point.
\<close>

definition nonSkippedSlotAfter ::
  "nat \<Rightarrow> config \<Rightarrow> 'p blocksFetcher \<Rightarrow> u64 \<Rightarrow> 'p requests \<Rightarrow> (error + u64) option \<times> 'p requests" where
  "nonSkippedSlotAfter fuel cfg f slot w =
     (case calculateHeadAndTargetEpochs cfg f of
        Inl err \<Rightarrow> (Some (Inl err), w)
      | Inr (headEpoch, targetEpoch, peers) \<Rightarrow>
          if targetEpoch \<le> headEpoch then (Some (Inl ErrSlotIsTooHigh), w)
          else
            (case filterPeers f peers of
               Inl err \<Rightarrow> (Some (Inl err), w)
             | Inr peers' \<Rightarrow>
                 if length peers' = 0 then (Some (Inl ErrNoPeersAvailable), w)
                 else searchStages fuel cfg f peers' slot targetEpoch w))"

section \<open>Package p2p: the topic registry and the broadcaster\<close>

subsection \<open>Contexts, messages, events\<close>

text \<open>
  A \<^verbatim>\<open>context.Context\<close> by its derivation: the background context, a context handed in
  by a caller (with the values it carries), and the two derivations the source uses.
  The timeout is kept in seconds. Tracing spans do not change what a context does and
  are left out.
\<close>

datatype "context" =
    Background
  | Caller "(string \<times> string) list"
  | WithTimeout "context" u64
  | WithValue "context" string "string option"

fun ctx_Value :: "context \<Rightarrow> string \<Rightarrow> string option" where
  "ctx_Value Background key = None"
| "ctx_Value (Caller kvs) key = map_of kvs key"
| "ctx_Value (WithTimeout ctx d) key = ctx_Value ctx key"
| "ctx_Value (WithValue ctx k v) key = (if k = key then v else ctx_Value ctx key)"

text \<open>
  A message to broadcast: \<open>typeName\<close> is what \<^verbatim>\<open>reflect.TypeOf(msg)\<close> yields, the content
  is opaque. An attestation is such a message; the source reads \<^verbatim>\<open>att.Data.Slot\<close> for its
  log lines only, and attestations are taken to have their \<^verbatim>\<open>Data\<close>.
\<close>

record message =
  typeName :: string
  content :: bytes

text \<open>
  Of a \<^verbatim>\<open>pubsub_pb.Message\<close> only the field \<^verbatim>\<open>Data\<close> is read; the other fields are the
  extension of the record.
\<close>

record pubsub_pb_Message =
  Data :: bytes

type_synonym topicHandle = nat
type_synonym peerID = nat
type_synonym topicOpt = nat
type_synonym forkDigest = bytes

datatype fmtArg = ArgBytes bytes | ArgU64 u64

text \<open>
  Every call that leaves the two source files is an event, in the order it happens.
  \<open>EvGo\<close> is the \<^verbatim>\<open>go\<close> statement of \<^verbatim>\<open>BroadcastAttestation\<close> with the arguments of the
  detached call, \<open>EvInc\<close> the increment of a metrics counter, \<open>EvSleep\<close> a sleep in
  milliseconds.
\<close>

datatype event =
    EvForkDigest
  | EvEncodeGossip message
  | EvJoin string "topicOpt list"
  | EvListPeers topicHandle
  | EvPublish topicHandle "context" bytes "topicOpt list"
  | EvSleep nat
  | EvHasPeerWithSubnet u64
  | EvFindPeersWithSubnet "context" u64
  | EvInc string
  | EvGo "context" u64 message forkDigest

text \<open>
  The state of a \<^verbatim>\<open>Service\<close> as far as the two files touch it: the map of joined topics,
  and the events so far. The locks are not modelled: calls run one after the other.
\<close>

record state =
  events :: "event list"
  joinedTopics :: "string \<rightharpoonup> topicHandle"

definition emit :: "event \<Rightarrow> state \<Rightarrow> state" where
  "emit e st = st\<lparr>events := events st @ [e]\<rparr>"

text \<open>
  The collaborators of the service and the tables it reads, none of them in the
  source at hand. Those that can answer differently from call to call take the events
  so far; every one of their calls is followed by an event before it is called again.
  \<open>ctx_Err\<close> is \<^verbatim>\<open>ctx.Err()\<close>: \<open>None\<close> as long as the context is neither cancelled nor
  past its deadline, which is also when \<^verbatim>\<open>ctx.Done()\<close> blocks.
\<close>

record service =
  forkDigest :: "event list \<Rightarrow> error + forkDigest"
  GossipTypeMapping :: "string \<rightharpoonup> string"
  AttestationSubnetTopicFormat :: string
  Sprintf :: "string \<Rightarrow> fmtArg list \<Rightarrow> string"
  EncodeGossip :: "message \<Rightarrow> error + bytes"
  ProtocolSuffix :: string
  pubsub_Join :: "event list \<Rightarrow> string \<Rightarrow> topicOpt list \<Rightarrow> error + topicHandle"
  ListPeers :: "event list \<Rightarrow> topicHandle \<Rightarrow> peerID list"
  Publish :: "event list \<Rightarrow> topicHandle \<Rightarrow> context \<Rightarrow> bytes \<Rightarrow> topicOpt list \<Rightarrow> error + unit"
  ctx_Err :: "event list \<Rightarrow> context \<Rightarrow> error option"
  hasPeerWithSubnet :: "event list \<Rightarrow> u64 \<Rightarrow> bool"
  FindPeersWithSubnet :: "event list \<Rightarrow> context \<Rightarrow> u64 \<Rightarrow> error + bool"

record networkConfig =
  MessageDomainInvalidSnappy :: bytes
  MessageDomainValidSnappy :: bytes

subsection \<open>JoinTopic, PublishToTopic, msgIDFunction\<close>

definition JoinTopic ::
  "service \<Rightarrow> string \<Rightarrow> topicOpt list \<Rightarrow> state \<Rightarrow> (error + topicHandle) \<times> state" where
  "JoinTopic s topic opts st =
     (case joinedTopics st topic of
        Some topicHandle \<Rightarrow> (Inr topicHandle, st)
      | None \<Rightarrow>
          (case pubsub_Join s (events st) topic opts of
             Inl err \<Rightarrow> (Inl err, emit (EvJoin topic opts) st)
           | Inr topicHandle \<Rightarrow>
               (Inr topicHandle,
                emit (EvJoin topic opts) (st\<lparr>joinedTopics := (joinedTopics st)(topic \<mapsto> topicHandle)\<rparr>))))"

text \<open>
  The polling loop of \<^verbatim>\<open>PublishToTopic\<close> (lines 57-69). The loop has no bound of its own,
  so the model takes the number of polls to observe: \<open>None\<close> is a loop that is still
  polling after that many, together with the state it has reached.
\<close>

fun awaitPeers ::
  "nat \<Rightarrow> service \<Rightarrow> context \<Rightarrow> topicHandle \<Rightarrow> bytes \<Rightarrow> topicOpt list \<Rightarrow> state
     \<Rightarrow> (error + unit) option \<times> state" where
  "awaitPeers 0 s ctx topicHandle data opts st = (None, st)"
| "awaitPeers (Suc n) s ctx topicHandle data opts st =
     (let peers = ListPeers s (events st) topicHandle;
          st1 = emit (EvListPeers topicHandle) st
      in if length peers > 0
         then (Some (Publish s (events st1) topicHandle ctx data opts),
               emit (EvPublish topicHandle ctx data opts) st1)
         else (case ctx_Err s (events st1) ctx of
                 Some err \<Rightarrow> (Some (Inl err), st1)
               | None \<Rightarrow> awaitPeers n s ctx topicHandle data opts (emit (EvSleep 100) st1)))"

definition PublishToTopic ::
  "nat \<Rightarrow> service \<Rightarrow> context \<Rightarrow> string \<Rightarrow> bytes \<Rightarrow> topicOpt list \<Rightarrow> state
     \<Rightarrow> (error + unit) option \<times> state" where
  "PublishToTopic fuel s ctx topic data opts st =
     (case JoinTopic s topic [] st of
        (Inl err, st1) \<Rightarrow> (Some (Inl err), st1)
      | (Inr topicHandle, st1) \<Rightarrow> awaitPeers fuel s ctx topicHandle data opts st1)"

text \<open>
  \<^verbatim>\<open>snappy.Decode\<close> and \<^verbatim>\<open>hashutil.Hash\<close> are library functions and are parameters of the
  model. \<^verbatim>\<open>h[:20]\<close> is \<open>take 20\<close>.
\<close>

definition msgIDFunction ::
  "(bytes \<Rightarrow> error + bytes) \<Rightarrow> (bytes \<Rightarrow> bytes) \<Rightarrow> networkConfig
     \<Rightarrow> 'a pubsub_pb_Message_scheme \<Rightarrow> bytes" where
  "msgIDFunction snappy_Decode hashutil_Hash ncfg pmsg =
     (case snappy_Decode (Data pmsg) of
        Inl err \<Rightarrow>
          (let combinedData = MessageDomainInvalidSnappy ncfg @ Data pmsg;
               h = hashutil_Hash combinedData
           in take 20 h)
      | Inr decodedData \<Rightarrow>
          (let combinedData = MessageDomainValidSnappy ncfg @ decodedData;
               h = hashutil_Hash combinedData
           in take 20 h))"

text \<open>The identifier as the specification words it, for comparison.\<close>

definition spec_MessageIdentifier_id ::
  "(bytes \<Rightarrow> error + bytes) \<Rightarrow> (bytes \<Rightarrow> bytes) \<Rightarrow> bytes \<Rightarrow> bytes \<Rightarrow> bytes \<Rightarrow> bytes" where
  "spec_MessageIdentifier_id decompress hash VALID_DOMAIN INVALID_DOMAIN rawBytes =
     (case decompress rawBytes of
        Inr decompressed \<Rightarrow> take 20 (hash (VALID_DOMAIN @ decompressed))
      | Inl failure \<Rightarrow> take 20 (hash (INVALID_DOMAIN @ rawBytes)))"

subsection \<open>broadcaster.go\<close>

definition maxSubnetDiscoveryAttempts :: nat where
  "maxSubnetDiscoveryAttempts = 3"

definition attestationToTopic :: "service \<Rightarrow> u64 \<Rightarrow> forkDigest \<Rightarrow> string" where
  "attestationToTopic s subnet digest =
     Sprintf s (AttestationSubnetTopicFormat s) [ArgBytes digest, ArgU64 subnet]"

definition broadcastObject ::
  "nat \<Rightarrow> service \<Rightarrow> context \<Rightarrow> message \<Rightarrow> string \<Rightarrow> state \<Rightarrow> (error + unit) option \<times> state" where
  "broadcastObject fuel s ctx obj topic st =
     (case EncodeGossip s obj of
        Inl err \<Rightarrow> (Some (Inl (ErrWrap err ''could not encode message'')), emit (EvEncodeGossip obj) st)
      | Inr buf \<Rightarrow>
          (case PublishToTopic fuel s ctx (topic @ ProtocolSuffix s) buf [] (emit (EvEncodeGossip obj) st) of
             (None, st') \<Rightarrow> (None, st')
           | (Some (Inl err), st') \<Rightarrow> (Some (Inl (ErrWrap err ''could not publish message'')), st')
           | (Some (Inr u), st') \<Rightarrow> (Some (Inr u), st')))"

definition Broadcast ::
  "nat \<Rightarrow> config \<Rightarrow> service \<Rightarrow> context \<Rightarrow> message \<Rightarrow> state \<Rightarrow> (error + unit) option \<times> state" where
  "Broadcast fuel cfg s ctx msg st =
     (let twoSlots = 2 * SecondsPerSlot cfg;
          ctx' = WithTimeout ctx twoSlots
      in case forkDigest s (events st) of
           Inl err \<Rightarrow>
             (Some (Inl (ErrWrap err ''could not retrieve fork digest'')), emit EvForkDigest st)
         | Inr digest \<Rightarrow>
             (case GossipTypeMapping s (typeName msg) of
                None \<Rightarrow> (Some (Inl ErrMessageNotMapped), emit EvForkDigest st)
              | Some topic \<Rightarrow>
                  broadcastObject fuel s ctx' msg (Sprintf s topic [ArgBytes digest])
                    (emit EvForkDigest st)))"

definition BroadcastAttestation ::
  "service \<Rightarrow> context \<Rightarrow> u64 \<Rightarrow> message \<Rightarrow> state \<Rightarrow> (error + unit) \<times> state" where
  "BroadcastAttestation s ctx subnet att st =
     (case forkDigest s (events st) of
        Inl err \<Rightarrow> (Inl (ErrWrap err ''could not retrieve fork digest''), emit EvForkDigest st)
      | Inr digest \<Rightarrow> (Inr (), emit (EvGo ctx subnet att digest) (emit EvForkDigest st)))"

text \<open>
  The discovery loop of \<^verbatim>\<open>broadcastAttestation\<close> (the function literal of lines 101-128),
  from attempt \<open>i\<close> on.
\<close>

function discoverSubnetPeers ::
  "service \<Rightarrow> context \<Rightarrow> u64 \<Rightarrow> nat \<Rightarrow> state \<Rightarrow> (error + unit) \<times> state" where
  "discoverSubnetPeers s ctx subnet i st =
     (if i < maxSubnetDiscoveryAttempts then
        (case ctx_Err s (events st) ctx of
           Some err \<Rightarrow> (Inl err, st)
         | None \<Rightarrow>
             (case FindPeersWithSubnet s (events st) ctx subnet of
                Inl err \<Rightarrow> (Inl err, emit (EvFindPeersWithSubnet ctx subnet) st)
              | Inr ok \<Rightarrow>
                  if ok
                  then (Inr (), emit (EvInc ''savedAttestationBroadcasts'')
                                  (emit (EvFindPeersWithSubnet ctx subnet) st))
                  else discoverSubnetPeers s ctx subnet (i + 1)
                         (emit (EvFindPeersWithSubnet ctx subnet) st)))
      else (Inl ErrFailedToFindPeers, st))"
  by pat_completeness auto
termination
  by (relation "measure (\<lambda>(s, ctx, subnet, i, st). maxSubnetDiscoveryAttempts - i)") auto

declare discoverSubnetPeers.simps [simp del]

text \<open>
  The detached call. It returns nothing; the first component says whether it has
  returned within the polls observed (\<open>None\<close>: its publish is still polling).
\<close>

definition broadcastAttestation ::
  "nat \<Rightarrow> config \<Rightarrow> service \<Rightarrow> context \<Rightarrow> u64 \<Rightarrow> message \<Rightarrow> forkDigest \<Rightarrow> state
     \<Rightarrow> unit option \<times> state" where
  "broadcastAttestation fuel cfg s ctx subnet att digest st =
     (let requestKey = ctx_Value ctx ''x-request-key'';
          oneEpoch = 1 * SlotsPerEpoch cfg * SecondsPerSlot cfg;
          ctx' = WithTimeout Background oneEpoch;
          hasPeer = hasPeerWithSubnet s (events st) subnet;
          st1 = emit (EvHasPeerWithSubnet subnet) st;
          st2 = (if \<not> hasPeer
                 then snd (discoverSubnetPeers s ctx' subnet 0
                             (emit (EvInc ''attestationBroadcastAttempts'') st1))
                 else st1)
      in case broadcastObject fuel s (WithValue ctx' ''x-request-key'' requestKey) att
                (attestationToTopic s subnet digest) st2 of
           (None, st3) \<Rightarrow> (None, st3)
         | (Some r, st3) \<Rightarrow> (Some (), st3))"

subsection \<open>Reading the event log\<close>

fun isFindPeers :: "event \<Rightarrow> bool" where
  "isFindPeers (EvFindPeersWithSubnet ctx subnet) = True"
| "isFindPeers e = False"

fun isEncode :: "event \<Rightarrow> bool" where
  "isEncode (EvEncodeGossip obj) = True"
| "isEncode e = False"

fun isPublish :: "event \<Rightarrow> bool" where
  "isPublish (EvPublish topicHandle ctx data opts) = True"
| "isPublish e = False"

fun isJoin :: "event \<Rightarrow> bool" where
  "isJoin (EvJoin topic opts) = True"
| "isJoin e = False"

fun isGo :: "event \<Rightarrow> bool" where
  "isGo (EvGo ctx subnet att digest) = True"
| "isGo e = False"

fun isListPeers :: "event \<Rightarrow> bool" where
  "isListPeers (EvListPeers topicHandle) = True"
| "isListPeers e = False"

text \<open>
  The state after \<open>k\<close> polls of \<^verbatim>\<open>PublishToTopic\<close> that each found no peer and no
  cancellation, and the condition under which a poll from a state is such a poll.
\<close>

fun idlePolls :: "nat \<Rightarrow> topicHandle \<Rightarrow> state \<Rightarrow> state" where
  "idlePolls 0 topicHandle st = st"
| "idlePolls (Suc k) topicHandle st =
     idlePolls k topicHandle (emit (EvSleep 100) (emit (EvListPeers topicHandle) st))"

definition idle :: "service \<Rightarrow> context \<Rightarrow> topicHandle \<Rightarrow> state \<Rightarrow> bool" where
  "idle s ctx topicHandle st =
     (ListPeers s (events st) topicHandle = [] \<and>
      ctx_Err s (events st @ [EvListPeers topicHandle]) ctx = None)"

section \<open>Scenarios\<close>

text \<open>
  Concrete configurations and collaborators, used to run the functions above.
  \<open>mainnet\<close> has 32 slots per epoch and a dense stage of 10 epochs.
\<close>

definition mainnet :: config where
  "mainnet = \<lparr>SlotsPerEpoch = 32, SecondsPerSlot = 12, MaxPeersToSync = 15, MinimumSyncPeers = 3,
     nonSkippedSlotsFullSearchEpochs = 10\<rparr>"

text \<open>
  A peer that answers every request truthfully from a chain with blocks at the given
  slots: the blocks whose slot is one of the \<open>Count\<close> slots \<open>StartSlot\<close>,
  \<open>StartSlot + Step\<close>, ...
\<close>

definition inRange :: "BeaconBlocksByRangeRequest \<Rightarrow> u64 \<Rightarrow> bool" where
  "inRange req s =
     (StartSlot req \<le> s \<and>
      unat s < unat (StartSlot req) + unat (Count req) * unat (Step req) \<and>
      (unat s - unat (StartSlot req)) mod unat (Step req) = 0)"

definition honestPeer ::
  "u64 list \<Rightarrow> nat requests \<Rightarrow> BeaconBlocksByRangeRequest \<Rightarrow> nat \<Rightarrow> error + SignedBeaconBlock list" where
  "honestPeer chain w req pid = Inr (map (\<lambda>s. \<lparr>Block = \<lparr>Slot = s\<rparr>\<rparr>) (filter (inRange req) chain))"

text \<open>
  A fetcher in head mode whose local head is \<open>headSlot\<close>, connected to the peers
  \<open>connected\<close>, all honest, all on the same chain and all reporting the head epoch
  \<open>target\<close>; the registry has a best epoch when it has as many peers as asked for.
\<close>

definition syncingFetcher :: "u64 \<Rightarrow> u64 \<Rightarrow> nat list \<Rightarrow> u64 list \<Rightarrow> nat blocksFetcher" where
  "syncingFetcher headSlot target connected chain =
    \<lparr>mode = modeNonConstrained,
     chain_FinalizedCheckpt_Epoch = 0,
     chain_HeadSlot = headSlot,
     peers_BestFinalized = (\<lambda>maxPeers ourFinalizedEpoch. (ourFinalizedEpoch, [])),
     peers_BestNonFinalized = (\<lambda>minPeers ourHeadEpoch.
        if sint minPeers \<le> int (length connected) then (target, connected) else (ourHeadEpoch, [])),
     filterPeers = (\<lambda>peers. Inr peers),
     requestBlocks = honestPeer chain,
     rand_Intn = (\<lambda>w n. 0)\<rparr>"

text \<open>
  A service whose fork digest is known, that knows one message type, where no peer
  serves the subnet at first and the second discovery attempt finds one, and where a
  mesh peer shows up at the third poll of a topic.
\<close>

definition demoService :: service where
  "demoService =
    \<lparr>forkDigest = (\<lambda>evs. Inr [1, 2, 3, 4]),
     GossipTypeMapping = [''*eth.SignedBeaconBlock'' \<mapsto> ''/eth2/%x/beacon_block''],
     AttestationSubnetTopicFormat = ''/eth2/%x/beacon_attestation_%d'',
     Sprintf = (\<lambda>format args. format),
     EncodeGossip = (\<lambda>obj. Inr (content obj)),
     ProtocolSuffix = ''/ssz_snappy'',
     pubsub_Join = (\<lambda>evs topic opts. Inr (41 + length (filter isJoin evs))),
     ListPeers = (\<lambda>evs topicHandle. if 2 \<le> length (filter isListPeers evs) then [7] else []),
     Publish = (\<lambda>evs topicHandle ctx data opts. Inr ()),
     ctx_Err = (\<lambda>evs ctx. None),
     hasPeerWithSubnet = (\<lambda>evs subnet. False),
     FindPeersWithSubnet = (\<lambda>evs ctx subnet. Inr (1 \<le> length (filter isFindPeers evs)))\<rparr>"

definition emptyState :: state where
  "emptyState = \<lparr>events = [], joinedTopics = Map.empty\<rparr>"

text \<open>A state in which the topic of the attestation subnets is joined already.\<close>

definition joinedState :: state where
  "joinedState =
     \<lparr>events = [], joinedTopics = [''/eth2/%x/beacon_attestation_%d/ssz_snappy'' \<mapsto> 7]\<rparr>"

definition attestation :: message where
  "attestation = \<lparr>typeName = ''*eth.Attestation'', content = [10, 20, 30]\<rparr>"

text \<open>A stand-in for snappy: a length byte, then that many bytes.\<close>

definition toyDecode :: "bytes \<Rightarrow> error + bytes" where
  "toyDecode raw =
     (case raw of
        [] \<Rightarrow> Inl (ErrExternal ''corrupt input'')
      | n # rest \<Rightarrow> if unat n = length rest then Inr rest else Inl (ErrExternal ''corrupt input''))"

text \<open>A stand-in for a hash with 32 bytes of output: byte \<open>i\<close> is the sum of the input plus \<open>i\<close>.\<close>

definition toyHash :: "bytes \<Rightarrow> bytes" where
  "toyHash x = map (\<lambda>i. fold (+) x i)
     [0, 1, 2, 3, 4, 5, 6, 7, 8, 9, 10, 11, 12, 13, 14, 15, 16,
      17, 18, 19, 20, 21, 22, 23, 24, 25, 26, 27, 28, 29, 30, 31]"

definition demoNetwork :: networkConfig where
  "demoNetwork = \<lparr>MessageDomainInvalidSnappy = [0, 0, 0, 0], MessageDomainValidSnappy = [1, 0, 0, 0]\<rparr>"

text \<open>
  Variants of \<open>demoService\<close>: one on whose topics no peer ever shows up and whose
  contexts are past their deadline from the third poll on, one whose first
  \<^verbatim>\<open>pubsub.Join\<close> fails, one whose every \<^verbatim>\<open>pubsub.Join\<close> fails, one whose encoder
  refuses every message, and one that cannot tell its fork digest yet.
\<close>

definition cancelledService :: service where
  "cancelledService =
     demoService\<lparr>ListPeers := (\<lambda>evs topicHandle. []),
                 ctx_Err := (\<lambda>evs ctx. if 3 \<le> length (filter isListPeers evs)
                                        then Some (ErrExternal ''context deadline exceeded'')
                                        else None)\<rparr>"

definition flakyJoinService :: service where
  "flakyJoinService =
     demoService\<lparr>pubsub_Join := (\<lambda>evs topic opts. if filter isJoin evs = []
                                                  then Inl (ErrExternal ''join failed'')
                                                  else Inr 41)\<rparr>"

definition closedPubsubService :: service where
  "closedPubsubService =
     demoService\<lparr>pubsub_Join := (\<lambda>evs topic opts. Inl (ErrExternal ''context canceled''))\<rparr>"

definition brokenEncoderService :: service where
  "brokenEncoderService =
     demoService\<lparr>EncodeGossip := (\<lambda>obj. Inl (ErrExternal ''message too large''))\<rparr>"

definition noDigestService :: service where
  "noDigestService = demoService\<lparr>forkDigest := (\<lambda>evs. Inl (ErrExternal ''genesis not set''))\<rparr>"

definition unmappedMessage :: message where
  "unmappedMessage = \<lparr>typeName = ''*pb.Unmapped'', content = [1]\<rparr>"

text \<open>
  The last slot of an epoch, the \<open>endOfEpoch\<close> of the specification: one before the
  first slot of the next epoch.
\<close>

definition spec_endOfEpoch :: "config \<Rightarrow> u64 \<Rightarrow> u64" where
  "spec_endOfEpoch cfg epoch = (epoch + 1) * SlotsPerEpoch cfg - 1"

section \<open>Running the loops on concrete inputs\<close>

lemma denseLoop_unroll:
  "0 < n \<Longrightarrow> denseLoop n cfg f peers slot end ind pidInd w =
     (if ind < end then
        (case fetch f slot (peers ! (pidInd mod length peers)) ind (SlotsPerEpoch cfg) 1 w of
           (Inl err, w') \<Rightarrow> (Some (Return (Inl err)), w')
         | (Inr nextSlot, w') \<Rightarrow>
             if nextSlot > slot then (Some (Return (Inr nextSlot)), w')
             else denseLoop (n - 1) cfg f peers slot end (ind + SlotsPerEpoch cfg) (pidInd + 1) w')
      else (Some (Next pidInd), w))"
proof -
  assume "0 < n"
  then obtain m where "n = Suc m" by (cases n) auto
  then show ?thesis by (simp only: denseLoop.simps diff_Suc_1)
qed

lemma sparseLoop_unroll:
  "0 < n \<Longrightarrow> sparseLoop n cfg f peers slot upperBoundSlot ind pidInd w =
     (let slotsPerEpoch = SlotsPerEpoch cfg in
      if ind < upperBoundSlot then
        (if slotsPerEpoch = 0 \<or> 2 ^ 63 \<le> slotsPerEpoch
         then (Some (Return (Inl (Panic ''invalid argument to Intn''))), w)
         else
           (let start = ind + of_nat (rand_Intn f w (unat slotsPerEpoch)) in
            case fetch f slot (peers ! (pidInd mod length peers)) start
                   (slotsPerEpoch div 2) slotsPerEpoch w of
              (Inl err, w') \<Rightarrow> (Some (Return (Inl err)), w')
            | (Inr nextSlot, w') \<Rightarrow>
                if nextSlot > slot \<and> upperBoundSlot \<ge> nextSlot
                then (Some (Next (nextSlot, pidInd + 1)), w')
                else sparseLoop (n - 1) cfg f peers slot upperBoundSlot
                       (ind + (slotsPerEpoch * slotsPerEpoch) div 2) (pidInd + 1) w'))
      else (Some (Next (upperBoundSlot, pidInd)), w))"
proof -
  assume "0 < n"
  then obtain m where "n = Suc m" by (cases n) auto
  then show ?thesis by (simp only: sparseLoop.simps diff_Suc_1)
qed

lemma awaitPeers_unroll:
  "0 < n \<Longrightarrow> awaitPeers n s ctx topicHandle data opts st =
     (let peers = ListPeers s (events st) topicHandle;
          st1 = emit (EvListPeers topicHandle) st
      in if length peers > 0
         then (Some (Publish s (events st1) topicHandle ctx data opts),
               emit (EvPublish topicHandle ctx data opts) st1)
         else (case ctx_Err s (events st1) ctx of
                 Some err \<Rightarrow> (Some (Inl err), st1)
               | None \<Rightarrow> awaitPeers (n - 1) s ctx topicHandle data opts (emit (EvSleep 100) st1)))"
proof -
  assume "0 < n"
  then obtain m where "n = Suc m" by (cases n) auto
  then show ?thesis by (simp only: awaitPeers.simps diff_Suc_1)
qed

lemmas fetcher_run = nonSkippedSlotAfter_def searchStages_def exactStage_def exactStart_def
  backOff_def calculateHeadAndTargetEpochs_def bestNonFinalizedSlot_def helpers_SlotToEpoch_def
  helpers_StartSlot_def fetch_def syncingFetcher_def mainnet_def honestPeer_def inRange_def Let_def
  denseLoop_unroll sparseLoop_unroll

section \<open>The non-skipped-slot search\<close>

lemma fetch_log:
  "fetch f slot pid start count step w = (r, w') \<Longrightarrow>
     w' = w @ [(pid, \<lparr>StartSlot = start, Count = count, Step = step\<rparr>)]"
  by (auto simp: fetch_def Let_def split: sum.splits)

text \<open>
  A slot the dense stage returns is beyond the reference slot, and comes from a
  request for one epoch.
\<close>

lemma denseLoop_Return:
  "denseLoop n cfg f peers slot end ind pidInd w = (Some (Return (Inr nextSlot)), w') \<Longrightarrow>
     slot < nextSlot \<and> w' \<noteq> [] \<and> Count (snd (last w')) = SlotsPerEpoch cfg \<and> Step (snd (last w')) = 1"
proof (induction n arbitrary: ind pidInd w)
  case 0
  then show ?case by simp
next
  case (Suc n)
  show ?case
  proof (cases "ind < end")
    case False
    with Suc.prems show ?thesis by simp
  next
    case True
    obtain r w1 where
      fe: "fetch f slot (peers ! (pidInd mod length peers)) ind (SlotsPerEpoch cfg) 1 w = (r, w1)"
      by (cases "fetch f slot (peers ! (pidInd mod length peers)) ind (SlotsPerEpoch cfg) 1 w")
    note lg = fetch_log [OF fe]
    show ?thesis
    proof (cases r)
      case (Inl err)
      with Suc.prems True fe show ?thesis by simp
    next
      case (Inr found)
      show ?thesis
      proof (cases "slot < found")
        case True
        with Suc.prems \<open>ind < end\<close> fe Inr lg show ?thesis by auto
      next
        case False
        with Suc.prems \<open>ind < end\<close> fe Inr
        have "denseLoop n cfg f peers slot end (ind + SlotsPerEpoch cfg) (pidInd + 1) w1 =
                (Some (Return (Inr nextSlot)), w')"
          by simp
        then show ?thesis by (rule Suc.IH)
      qed
    qed
  qed
qed

text \<open>The sparse stage never makes the function return a slot, only an error.\<close>

lemma sparseLoop_Return:
  "sparseLoop n cfg f peers slot ub ind pidInd w = (Some (Return r), w') \<Longrightarrow> \<exists>err. r = Inl err"
proof (induction n arbitrary: ind pidInd w)
  case 0
  then show ?case by simp
next
  case (Suc n)
  then show ?case
    by (auto simp: Let_def split: if_splits prod.splits sum.splits)
qed

lemma exactStage_Inr:
  assumes "exactStage cfg f peers slot targetEpoch ub pidInd w = (Inr nextSlot, w')"
  shows "slot \<le> nextSlot
     \<and> (\<exists>s. helpers_StartSlot cfg (targetEpoch + 1) = Inr s \<and> nextSlot \<le> s)
     \<and> SlotsPerEpoch cfg \<noteq> 0
     \<and> w' \<noteq> [] \<and> Count (snd (last w')) = SlotsPerEpoch cfg * 2 \<and> Step (snd (last w')) = 1"
  using assms
  by (auto simp: exactStage_def exactStart_def helpers_SlotToEpoch_def
      split: sum.splits prod.splits if_splits dest!: fetch_log)

lemma no_wrap_less:
  fixes slot k spe :: u64
  assumes "unat slot + unat k * unat spe < 2 ^ 64" and pos: "0 < unat k * unat spe"
  shows "slot < slot + k * spe"
proof -
  have "unat k * unat spe < 2 ^ 64" using assms(1) by simp
  then have m: "unat (k * spe) = unat k * unat spe"
    by (simp add: unat_word_ariths)
  have "unat (slot + k * spe) = unat slot + unat k * unat spe"
    using assms(1) m by (simp add: unat_word_ariths)
  then show ?thesis using pos by (simp add: word_less_nat_alt)
qed

text \<open>
  Claim C1, as the code has it. When \<^verbatim>\<open>nonSkippedSlotAfter\<close> returns a slot, the last
  request issued has step 1 and is one of two. Either it is a dense-stage request
  (one epoch), and the slot returned is beyond the reference slot, with no upper
  bound checked. Or it is the exact-stage request (two epochs), and the slot returned
  is at least the reassigned \<^verbatim>\<open>slot\<close> of line 85, that is
  \<open>slot + nonSkippedSlotsFullSearchEpochs * SlotsPerEpoch\<close> computed in 64 bits, and at
  most \<open>StartSlot(targetEpoch + 1)\<close>, the first slot after the target epoch. The sparse
  stage returns no slot. In consequence the slot returned is beyond the reference
  slot whenever the dense window is not empty and does not reach beyond 64 bits.
\<close>

theorem nonSkippedSlotAfter_bounds:
  assumes ret: "nonSkippedSlotAfter fuel cfg f slot w = (Some (Inr nextSlot), w')"
      and calc: "calculateHeadAndTargetEpochs cfg f = Inr (headEpoch, targetEpoch, peers)"
  shows "w' \<noteq> [] \<and> Step (snd (last w')) = 1
     \<and> (Count (snd (last w')) = SlotsPerEpoch cfg \<and> slot < nextSlot
        \<or> Count (snd (last w')) = SlotsPerEpoch cfg * 2
          \<and> slot + nonSkippedSlotsFullSearchEpochs cfg * SlotsPerEpoch cfg \<le> nextSlot
          \<and> (\<exists>s. helpers_StartSlot cfg (targetEpoch + 1) = Inr s \<and> nextSlot \<le> s))
     \<and> (unat slot + unat (nonSkippedSlotsFullSearchEpochs cfg) * unat (SlotsPerEpoch cfg) < 2 ^ 64
          \<and> 0 < unat (nonSkippedSlotsFullSearchEpochs cfg) * unat (SlotsPerEpoch cfg)
        \<longrightarrow> slot < nextSlot)"
proof -
  from ret calc obtain peers' where
    st: "searchStages fuel cfg f peers' slot targetEpoch w = (Some (Inr nextSlot), w')"
    by (auto simp: nonSkippedSlotAfter_def split: if_splits sum.splits)
  let ?K = "nonSkippedSlotsFullSearchEpochs cfg * SlotsPerEpoch cfg"
  obtain d w1 where dl: "denseLoop fuel cfg f peers' slot (slot + 1 + ?K) (slot + 1) 0 w = (d, w1)"
    by (cases "denseLoop fuel cfg f peers' slot (slot + 1 + ?K) (slot + 1) 0 w")
  show ?thesis
  proof (cases d)
    case None
    with st dl show ?thesis by (simp add: searchStages_def Let_def)
  next
    case (Some fl)
    show ?thesis
    proof (cases fl)
      case (Return r)
      with st dl Some have "r = Inr nextSlot" "w1 = w'" by (simp_all add: searchStages_def Let_def)
      with dl Some Return
      have "denseLoop fuel cfg f peers' slot (slot + 1 + ?K) (slot + 1) 0 w =
              (Some (Return (Inr nextSlot)), w')"
        by simp
      from denseLoop_Return [OF this] show ?thesis by simp
    next
      case (Next pidInd)
      with st dl Some obtain ub' pidInd' w2 where
        ex: "exactStage cfg f peers' (slot + ?K) targetEpoch ub' pidInd' w2 = (Inr nextSlot, w')"
        by (auto simp: searchStages_def Let_def
            split: sum.splits prod.splits option.splits flow.splits dest: sparseLoop_Return)
      from exactStage_Inr [OF ex] have
        a: "slot + ?K \<le> nextSlot"
        and b: "\<exists>s. helpers_StartSlot cfg (targetEpoch + 1) = Inr s \<and> nextSlot \<le> s"
        and d: "w' \<noteq> []" "Count (snd (last w')) = SlotsPerEpoch cfg * 2" "Step (snd (last w')) = 1"
        by simp_all
      have c: "slot < nextSlot"
        if "unat slot + unat (nonSkippedSlotsFullSearchEpochs cfg) * unat (SlotsPerEpoch cfg) < 2 ^ 64"
          and "0 < unat (nonSkippedSlotsFullSearchEpochs cfg) * unat (SlotsPerEpoch cfg)"
        using no_wrap_less [OF that] a by simp
      from a b c d show ?thesis by blast
    qed
  qed
qed

text \<open>
  Two runs through all three stages against four honest peers reporting epoch 20.
  In the first the head and the reference slot are 100 and the only block ahead is
  at slot 672. In the second the reference slot is the largest 64-bit value, the
  reassigned \<^verbatim>\<open>slot\<close> wraps around to 319, and the block found is at slot 650: the
  bounds of the exact stage hold there too.
\<close>

theorem nonSkippedSlotAfter_bounds_witness:
  "nonSkippedSlotAfter 20 mainnet (syncingFetcher 100 20 [0, 1, 2, 3] [672]) 100 [] =
     (Some (Inr 672), snd (nonSkippedSlotAfter 20 mainnet (syncingFetcher 100 20 [0, 1, 2, 3] [672]) 100 []))
   \<and> calculateHeadAndTargetEpochs mainnet (syncingFetcher 100 20 [0, 1, 2, 3] [672]) =
       Inr (3, 20, [0, 1, 2, 3])
   \<and> unat (100 :: u64) + unat (nonSkippedSlotsFullSearchEpochs mainnet) * unat (SlotsPerEpoch mainnet)
       < 2 ^ 64
   \<and> 0 < unat (nonSkippedSlotsFullSearchEpochs mainnet) * unat (SlotsPerEpoch mainnet)
   \<and> (100 :: u64) < 672
   \<and> helpers_StartSlot mainnet (20 + 1) = Inr 672
   \<and> Count (snd (last (snd (nonSkippedSlotAfter 20 mainnet
                (syncingFetcher 100 20 [0, 1, 2, 3] [672]) 100 [])))) = 64
   \<and> nonSkippedSlotAfter 20 mainnet (syncingFetcher 100 20 [0, 1, 2, 3] [650]) (- 1) [] =
     (Some (Inr 650), snd (nonSkippedSlotAfter 20 mainnet (syncingFetcher 100 20 [0, 1, 2, 3] [650]) (- 1) []))
   \<and> (- 1 :: u64) + nonSkippedSlotsFullSearchEpochs mainnet * SlotsPerEpoch mainnet = 319
   \<and> (319 :: u64) \<le> 650 \<and> (650 :: u64) \<le> 672
   \<and> Count (snd (last (snd (nonSkippedSlotAfter 20 mainnet
                (syncingFetcher 100 20 [0, 1, 2, 3] [650]) (- 1) [])))) = 64"
proof -
  let ?f = "syncingFetcher 100 20 [0, 1, 2, 3] [672]"
  let ?g = "syncingFetcher 100 20 [0, 1, 2, 3] [650]"
  have "fst (nonSkippedSlotAfter 20 mainnet ?f 100 []) = Some (Inr 672)"
    by (simp add: fetcher_run)
  then have h1: "nonSkippedSlotAfter 20 mainnet ?f 100 [] =
      (Some (Inr 672), snd (nonSkippedSlotAfter 20 mainnet ?f 100 []))"
    by (simp add: prod_eq_iff)
  have h2: "calculateHeadAndTargetEpochs mainnet ?f = Inr (3, 20, [0, 1, 2, 3])"
    by (simp add: fetcher_run)
  have h3: "unat (100 :: u64) + unat (nonSkippedSlotsFullSearchEpochs mainnet) * unat (SlotsPerEpoch mainnet)
      < 2 ^ 64"
    by (simp add: mainnet_def)
  have h4: "0 < unat (nonSkippedSlotsFullSearchEpochs mainnet) * unat (SlotsPerEpoch mainnet)"
    by (simp add: mainnet_def)
  have s: "helpers_StartSlot mainnet (20 + 1) = Inr 672"
    by (simp add: helpers_StartSlot_def mainnet_def)
  have c: "Count (snd (last (snd (nonSkippedSlotAfter 20 mainnet ?f 100 [])))) = 64"
    by (simp add: fetcher_run)
  have "fst (nonSkippedSlotAfter 20 mainnet ?g (- 1) []) = Some (Inr 650)"
    by (simp add: fetcher_run)
  then have g1: "nonSkippedSlotAfter 20 mainnet ?g (- 1) [] =
      (Some (Inr 650), snd (nonSkippedSlotAfter 20 mainnet ?g (- 1) []))"
    by (simp add: prod_eq_iff)
  have g2: "calculateHeadAndTargetEpochs mainnet ?g = Inr (3, 20, [0, 1, 2, 3])"
    by (simp add: fetcher_run)
  have gc: "Count (snd (last (snd (nonSkippedSlotAfter 20 mainnet ?g (- 1) [])))) = 64"
    by (simp add: fetcher_run)
  have k: "(- 1 :: u64) + nonSkippedSlotsFullSearchEpochs mainnet * SlotsPerEpoch mainnet = 319"
    by (simp add: mainnet_def)
  have first: "(100 :: u64) < 672"
    using nonSkippedSlotAfter_bounds [OF h1 h2] h3 h4 by blast
  have second: "(319 :: u64) \<le> 650 \<and> (650 :: u64) \<le> 672"
    using nonSkippedSlotAfter_bounds [OF g1 g2] gc s k by (simp add: mainnet_def)
  from first second h1 h2 h3 h4 s c g1 gc k show ?thesis by simp
qed

text \<open>
  Three runs against honest peers that contradict the claim as it is worded. In the
  first the exact stage returns slot 672 for target epoch 20, whose last slot is 671.
  In the second the dense stage returns slot 200 for target epoch 4, whose last slot
  is 159. In the third the reference slot is the largest 64-bit value, the dense
  window wraps around, and the slot returned, 650, is below the reference slot.
\<close>

theorem nonSkippedSlotAfter_bounds_counterexample:
  "calculateHeadAndTargetEpochs mainnet (syncingFetcher 100 20 [0, 1, 2, 3] [672]) =
       Inr (3, 20, [0, 1, 2, 3])
   \<and> fst (nonSkippedSlotAfter 20 mainnet (syncingFetcher 100 20 [0, 1, 2, 3] [672]) 100 []) =
       Some (Inr 672)
   \<and> spec_endOfEpoch mainnet 20 < 672
   \<and> calculateHeadAndTargetEpochs mainnet (syncingFetcher 100 4 [0, 1, 2, 3] [200, 310]) =
       Inr (3, 4, [0, 1, 2, 3])
   \<and> nonSkippedSlotAfter 20 mainnet (syncingFetcher 100 4 [0, 1, 2, 3] [200, 310]) 100 [] =
       (Some (Inr 200),
        [(0, \<lparr>StartSlot = 101, Count = 32, Step = 1\<rparr>), (1, \<lparr>StartSlot = 133, Count = 32, Step = 1\<rparr>),
         (2, \<lparr>StartSlot = 165, Count = 32, Step = 1\<rparr>), (3, \<lparr>StartSlot = 197, Count = 32, Step = 1\<rparr>)])
   \<and> spec_endOfEpoch mainnet 4 < 200
   \<and> fst (nonSkippedSlotAfter 20 mainnet (syncingFetcher 100 20 [0, 1, 2, 3] [650]) (- 1) []) =
       Some (Inr 650)
   \<and> (650 :: u64) < - 1"
  by (simp add: fetcher_run spec_endOfEpoch_def)

section \<open>Head and target epochs\<close>

text \<open>
  Claim C2, as the code has it. In every mode other than \<^verbatim>\<open>modeStopOnFinalizedEpoch\<close>,
  \<^verbatim>\<open>calculateHeadAndTargetEpochs\<close> returns as head epoch \<^verbatim>\<open>SlotToEpoch\<close> of the local head slot,
  and as target epoch and peers what the registry's best non-finalized vote answers
  for a minimum peer count of \<open>MinimumSyncPeers\<close>, not doubled. The doubled count is
  what \<^verbatim>\<open>bestNonFinalizedSlot\<close> asks with: the product of the Go \<^verbatim>\<open>int\<close>
  \<open>MinimumSyncPeers\<close> and 2, which is twice its value reduced to 64 bits in two's
  complement.
\<close>

theorem calculateHeadAndTargetEpochs_stopOnHead:
  assumes "mode f \<noteq> modeStopOnFinalizedEpoch"
      and "helpers_SlotToEpoch cfg (chain_HeadSlot f) = Inr headEpoch"
  shows "calculateHeadAndTargetEpochs cfg f =
           Inr (headEpoch, peers_BestNonFinalized f (MinimumSyncPeers cfg) headEpoch)
       \<and> bestNonFinalizedSlot cfg f =
           Inr (fst (peers_BestNonFinalized f (MinimumSyncPeers cfg * 2) headEpoch) * SlotsPerEpoch cfg)
       \<and> sint (MinimumSyncPeers cfg * 2) = signed_take_bit 63 (sint (MinimumSyncPeers cfg) * 2)"
proof -
  have "sint (MinimumSyncPeers cfg * 2) = signed_take_bit 63 (sint (MinimumSyncPeers cfg) * sint (2 :: goint))"
    by (simp add: sint_word_ariths)
  then have "sint (MinimumSyncPeers cfg * 2) = signed_take_bit 63 (sint (MinimumSyncPeers cfg) * 2)"
    by simp
  with assms show ?thesis
    by (simp add: calculateHeadAndTargetEpochs_def bestNonFinalizedSlot_def split: prod.splits)
qed

text \<open>
  With \<open>MinimumSyncPeers = 3\<close> and four connected peers the doubled count 6 finds no
  best epoch beyond the head epoch 3, whose first slot is 96. With
  \<open>MinimumSyncPeers = 2 ^ 62\<close> the product wraps around to \<open>- (2 ^ 63)\<close>, which the four peers
  do meet, and \<^verbatim>\<open>bestNonFinalizedSlot\<close> is the first slot of epoch 20.
\<close>

theorem calculateHeadAndTargetEpochs_stopOnHead_witness:
  "mode (syncingFetcher 100 20 [0, 1, 2, 3] []) \<noteq> modeStopOnFinalizedEpoch
   \<and> helpers_SlotToEpoch mainnet (chain_HeadSlot (syncingFetcher 100 20 [0, 1, 2, 3] [])) = Inr 3
   \<and> calculateHeadAndTargetEpochs mainnet (syncingFetcher 100 20 [0, 1, 2, 3] []) =
       Inr (3, 20, [0, 1, 2, 3])
   \<and> bestNonFinalizedSlot mainnet (syncingFetcher 100 20 [0, 1, 2, 3] []) = Inr 96
   \<and> sint (MinimumSyncPeers (mainnet\<lparr>MinimumSyncPeers := 4611686018427387904\<rparr>) * 2) =
       - 9223372036854775808
   \<and> bestNonFinalizedSlot (mainnet\<lparr>MinimumSyncPeers := 4611686018427387904\<rparr>)
       (syncingFetcher 100 20 [0, 1, 2, 3] []) = Inr 640"
proof -
  let ?f = "syncingFetcher 100 20 [0, 1, 2, 3] []"
  let ?big = "mainnet\<lparr>MinimumSyncPeers := 4611686018427387904\<rparr>"
  have h1: "mode ?f \<noteq> modeStopOnFinalizedEpoch" by (simp add: syncingFetcher_def)
  have h2: "helpers_SlotToEpoch mainnet (chain_HeadSlot ?f) = Inr 3"
    by (simp add: helpers_SlotToEpoch_def syncingFetcher_def mainnet_def)
  have h3: "helpers_SlotToEpoch ?big (chain_HeadSlot ?f) = Inr 3"
    by (simp add: helpers_SlotToEpoch_def syncingFetcher_def mainnet_def)
  have a: "calculateHeadAndTargetEpochs mainnet ?f = Inr (3, 20, [0, 1, 2, 3])
      \<and> bestNonFinalizedSlot mainnet ?f = Inr 96"
    using calculateHeadAndTargetEpochs_stopOnHead [OF h1 h2]
    by (simp add: syncingFetcher_def mainnet_def)
  have b: "sint (MinimumSyncPeers ?big * 2) = - 9223372036854775808
      \<and> bestNonFinalizedSlot ?big ?f = Inr 640"
    using calculateHeadAndTargetEpochs_stopOnHead [OF h1 h3]
    by (simp add: syncingFetcher_def mainnet_def)
  from a b h1 h2 show ?thesis by simp
qed

text \<open>
  Four connected peers and \<open>MinimumSyncPeers = 3\<close>: asked with 3 the registry answers
  epoch 20 and the four peers, which is what the function returns; asked with 6 it
  has no answer beyond the head epoch.
\<close>

theorem calculateHeadAndTargetEpochs_stopOnHead_counterexample:
  "mode (syncingFetcher 100 20 [0, 1, 2, 3] []) = modeNonConstrained
   \<and> calculateHeadAndTargetEpochs mainnet (syncingFetcher 100 20 [0, 1, 2, 3] []) =
       Inr (3, 20, [0, 1, 2, 3])
   \<and> peers_BestNonFinalized (syncingFetcher 100 20 [0, 1, 2, 3] []) (2 * MinimumSyncPeers mainnet) 3 =
       (3, [])
   \<and> calculateHeadAndTargetEpochs mainnet (syncingFetcher 100 20 [0, 1, 2, 3] []) \<noteq>
       Inr (3, peers_BestNonFinalized (syncingFetcher 100 20 [0, 1, 2, 3] [])
                 (2 * MinimumSyncPeers mainnet) 3)"
  by (simp add: fetcher_run)

text \<open>
  Claim C3. Whatever the slot asked for, when the target epoch computed by
  \<^verbatim>\<open>calculateHeadAndTargetEpochs\<close> is not beyond the head epoch, \<^verbatim>\<open>nonSkippedSlotAfter\<close>
  returns \<^verbatim>\<open>errSlotIsTooHigh\<close>, for every bound on the loops, and the log of block-range
  requests is as it was before the call.
\<close>

theorem nonSkippedSlotAfter_SlotIsTooHigh:
  assumes "calculateHeadAndTargetEpochs cfg f = Inr (headEpoch, targetEpoch, peers)"
      and "targetEpoch \<le> headEpoch"
  shows "nonSkippedSlotAfter fuel cfg f slot w = (Some (Inl ErrSlotIsTooHigh), w)"
  using assms by (simp add: nonSkippedSlotAfter_def)

theorem nonSkippedSlotAfter_SlotIsTooHigh_witness:
  "calculateHeadAndTargetEpochs mainnet (syncingFetcher 100 3 [0, 1, 2, 3] [200]) =
       Inr (3, 3, [0, 1, 2, 3])
   \<and> (3 :: u64) \<le> 3
   \<and> nonSkippedSlotAfter 0 mainnet (syncingFetcher 100 3 [0, 1, 2, 3] [200]) 100 [] =
       (Some (Inl ErrSlotIsTooHigh), [])"
proof -
  let ?f = "syncingFetcher 100 3 [0, 1, 2, 3] [200]"
  have h1: "calculateHeadAndTargetEpochs mainnet ?f = Inr (3, 3, [0, 1, 2, 3])"
    by (simp add: fetcher_run)
  have h2: "(3 :: u64) \<le> 3" by simp
  from nonSkippedSlotAfter_SlotIsTooHigh [OF h1 h2, of 0 100 "[]"] h1 show ?thesis by simp
qed

section \<open>The exact stage\<close>

lemma unat_div_mult:
  fixes x spe :: u64
  shows "unat (x div spe * spe) = unat x div unat spe * unat spe"
proof -
  have d: "unat (x div spe) = unat x div unat spe" by (rule unat_div)
  have "unat x div unat spe * unat spe \<le> unat x" by simp
  also have "unat x < 2 ^ 64" using unsigned_less [of x] by simp
  finally have lt: "unat (x div spe) * unat spe < 2 ^ 64" by (simp only: d)
  have "unat (x div spe * spe) = unat (x div spe) * unat spe mod 2 ^ 64"
    by (simp add: unat_word_ariths)
  also have "\<dots> = unat (x div spe) * unat spe" using lt by (rule mod_less)
  finally show ?thesis by (simp only: d)
qed

text \<open>
  Claim C10. With a positive number of slots per epoch, the guarded subtraction of
  the exact stage yields the exact difference \<open>upperBoundSlot - SlotsPerEpoch\<close> when
  \<open>upperBoundSlot\<close> is beyond \<open>SlotsPerEpoch\<close> and leaves \<open>upperBoundSlot\<close> alone otherwise,
  so the 64-bit value never wraps below zero; rounding down to the epoch start cannot
  fail; and the one request the exact stage issues asks for \<open>2 * SlotsPerEpoch\<close> slots
  with step 1 from a start slot that is a multiple of \<open>SlotsPerEpoch\<close>.
\<close>

theorem exactStage_start_is_epoch_boundary:
  assumes "SlotsPerEpoch cfg \<noteq> 0"
  shows "unat (backOff cfg ub) =
           (if unat (SlotsPerEpoch cfg) < unat ub then unat ub - unat (SlotsPerEpoch cfg) else unat ub)
       \<and> backOff cfg ub \<le> ub
       \<and> (\<exists>start. exactStart cfg ub = Inr start
            \<and> unat start = unat (backOff cfg ub) div unat (SlotsPerEpoch cfg) * unat (SlotsPerEpoch cfg)
            \<and> unat (SlotsPerEpoch cfg) dvd unat start
            \<and> snd (exactStage cfg f peers slot targetEpoch ub pidInd w) =
                w @ [(peers ! (pidInd mod length peers),
                      \<lparr>StartSlot = start, Count = SlotsPerEpoch cfg * 2, Step = 1\<rparr>)])"
proof -
  let ?spe = "SlotsPerEpoch cfg"
  have bo: "unat (backOff cfg ub) = (if unat ?spe < unat ub then unat ub - unat ?spe else unat ub)"
    by (simp add: backOff_def word_less_nat_alt unat_sub word_le_nat_alt)
  then have le: "backOff cfg ub \<le> ub"
    by (simp add: word_le_nat_alt)
  let ?e = "backOff cfg ub div ?spe"
  have m: "unat (?e * ?spe) = unat (backOff cfg ub) div unat ?spe * unat ?spe"
    by (rule unat_div_mult)
  have "unat ?e * unat ?spe < 2 ^ 64"
    using m unsigned_less [of "?e * ?spe", where 'a = nat] by (simp add: unat_div)
  then have st: "exactStart cfg ub = Inr (?e * ?spe)"
    using assms by (simp add: exactStart_def helpers_SlotToEpoch_def helpers_StartSlot_def)
  have lg: "snd (exactStage cfg f peers slot targetEpoch ub pidInd w) =
     w @ [(peers ! (pidInd mod length peers), \<lparr>StartSlot = ?e * ?spe, Count = ?spe * 2, Step = 1\<rparr>)]"
    by (auto simp: exactStage_def st split: prod.splits sum.splits dest!: fetch_log)
  show ?thesis using bo le m st lg by simp
qed

theorem exactStage_start_is_epoch_boundary_witness:
  "SlotsPerEpoch mainnet \<noteq> 0
   \<and> backOff mainnet 672 = 640 \<and> exactStart mainnet 672 = Inr 640
   \<and> backOff mainnet 20 = 20 \<and> exactStart mainnet 20 = Inr 0
   \<and> snd (exactStage mainnet (syncingFetcher 100 20 [0, 1, 2, 3] [672]) [0, 1, 2, 3] 420 20 672 11 []) =
       [(3, \<lparr>StartSlot = 640, Count = 64, Step = 1\<rparr>)]"
proof -
  have h: "SlotsPerEpoch mainnet \<noteq> 0" by (simp add: mainnet_def)
  from exactStage_start_is_epoch_boundary [OF h] h show ?thesis
    by (simp add: fetcher_run)
qed

section \<open>The topic registry\<close>

lemma events_emit [simp]: "events (emit e st) = events st @ [e]"
  by (simp add: emit_def)

lemma joinedTopics_emit [simp]: "joinedTopics (emit e st) = joinedTopics st"
  by (simp add: emit_def)

lemmas p2p_run = broadcastAttestation_def broadcastObject_def PublishToTopic_def JoinTopic_def
  Broadcast_def BroadcastAttestation_def awaitPeers_unroll discoverSubnetPeers.simps
  demoService_def cancelledService_def flakyJoinService_def closedPubsubService_def
  brokenEncoderService_def noDigestService_def unmappedMessage_def joinedState_def
  emptyState_def attestation_def mainnet_def emit_def attestationToTopic_def
  maxSubnetDiscoveryAttempts_def Let_def

text \<open>
  Claim C7, as the code has it. Once a call of \<^verbatim>\<open>JoinTopic\<close> has returned a handle, the
  next call for the same topic, with whatever options, returns the same handle and
  leaves the state as it is: the map of joined topics is unchanged and no
  \<^verbatim>\<open>pubsub.Join\<close> is issued. (A call whose \<^verbatim>\<open>pubsub.Join\<close> fails records nothing.)
\<close>

theorem JoinTopic_idempotent:
  assumes "JoinTopic s topic opts st = (Inr h, st1)"
  shows "JoinTopic s topic opts' st1 = (Inr h, st1)"
  using assms by (auto simp: JoinTopic_def split: option.splits sum.splits)

theorem JoinTopic_idempotent_witness:
  "JoinTopic demoService ''t'' [] emptyState =
     (Inr 41, \<lparr>events = [EvJoin ''t'' []], joinedTopics = [''t'' \<mapsto> 41]\<rparr>)
   \<and> JoinTopic demoService ''t'' [] \<lparr>events = [EvJoin ''t'' []], joinedTopics = [''t'' \<mapsto> 41]\<rparr> =
     (Inr 41, \<lparr>events = [EvJoin ''t'' []], joinedTopics = [''t'' \<mapsto> 41]\<rparr>)"
proof -
  have h: "JoinTopic demoService ''t'' [] emptyState =
     (Inr 41, \<lparr>events = [EvJoin ''t'' []], joinedTopics = [''t'' \<mapsto> 41]\<rparr>)"
    by (simp add: p2p_run)
  from JoinTopic_idempotent [OF h, of "[]"] h show ?thesis by simp
qed

text \<open>
  Two pairs of calls in a row. With a \<^verbatim>\<open>pubsub.Join\<close> that always fails, both calls
  return its error and \<^verbatim>\<open>pubsub.Join\<close> is invoked by the second call as well. With a
  \<^verbatim>\<open>pubsub.Join\<close> that fails the first time only, the first call returns the error and
  no handle, the second call returns a handle, and \<^verbatim>\<open>pubsub.Join\<close> has again been
  invoked twice.
\<close>

theorem JoinTopic_idempotent_counterexample:
  "JoinTopic closedPubsubService ''t'' [] emptyState =
     (Inl (ErrExternal ''context canceled''), \<lparr>events = [EvJoin ''t'' []], joinedTopics = Map.empty\<rparr>)
   \<and> JoinTopic closedPubsubService ''t'' [] \<lparr>events = [EvJoin ''t'' []], joinedTopics = Map.empty\<rparr> =
     (Inl (ErrExternal ''context canceled''),
      \<lparr>events = [EvJoin ''t'' [], EvJoin ''t'' []], joinedTopics = Map.empty\<rparr>)
   \<and> JoinTopic flakyJoinService ''t'' [] emptyState =
     (Inl (ErrExternal ''join failed''), \<lparr>events = [EvJoin ''t'' []], joinedTopics = Map.empty\<rparr>)
   \<and> JoinTopic flakyJoinService ''t'' [] \<lparr>events = [EvJoin ''t'' []], joinedTopics = Map.empty\<rparr> =
     (Inr 41, \<lparr>events = [EvJoin ''t'' [], EvJoin ''t'' []], joinedTopics = [''t'' \<mapsto> 41]\<rparr>)"
  by (simp add: p2p_run)

lemma awaitPeers_idle:
  "\<forall>i<k. idle s ctx h (idlePolls i h st) \<Longrightarrow>
     awaitPeers (k + n) s ctx h data opts st = awaitPeers n s ctx h data opts (idlePolls k h st)"
proof (induction k arbitrary: st)
  case 0
  show ?case by simp
next
  case (Suc k)
  let ?st' = "emit (EvSleep 100) (emit (EvListPeers h) st)"
  from Suc.prems have "idle s ctx h (idlePolls 0 h st)" by blast
  then have i0: "ListPeers s (events st) h = []" "ctx_Err s (events st @ [EvListPeers h]) ctx = None"
    by (simp_all add: idle_def)
  have "\<forall>i<k. idle s ctx h (idlePolls i h ?st')"
  proof (intro allI impI)
    fix i assume "i < k"
    then have "Suc i < Suc k" by simp
    with Suc.prems have "idle s ctx h (idlePolls (Suc i) h st)" by blast
    then show "idle s ctx h (idlePolls i h ?st')" by simp
  qed
  then have "awaitPeers (k + n) s ctx h data opts ?st' = awaitPeers n s ctx h data opts (idlePolls k h ?st')"
    by (rule Suc.IH)
  with i0 show ?case by simp
qed

lemma idlePolls_events:
  "filter isPublish (events (idlePolls k h st)) = filter isPublish (events st)"
  by (induction k arbitrary: st) simp_all

lemma JoinTopic_publishes:
  "JoinTopic s topic opts st = (r, st') \<Longrightarrow> filter isPublish (events st') = filter isPublish (events st)"
  by (auto simp: JoinTopic_def split: option.splits sum.splits)

text \<open>
  Claim C5. Let \<^verbatim>\<open>PublishToTopic\<close> have joined the topic, and let the first \<open>k\<close> polls
  each find no peer on the mesh and the context still live. Then each of them is
  followed by a sleep of 100 milliseconds and another poll, and poll \<open>k + 1\<close> decides:
  if a peer is listed the message is published, with the result of the publish as
  the result; if none is listed and the context is done the result is the context's
  error. Up to and including that poll nothing has been published, so the error is
  returned without any publish. Observed for \<open>k\<close> polls only, the call is still
  polling.
\<close>

theorem PublishToTopic_polls:
  assumes join: "JoinTopic s topic [] st = (Inr h, st0)"
      and idle: "\<forall>i<k. idle s ctx h (idlePolls i h st0)"
  shows "PublishToTopic (k + Suc n) s ctx topic data opts st =
           (let stk = idlePolls k h st0; st1 = emit (EvListPeers h) stk in
            if ListPeers s (events stk) h \<noteq> []
            then (Some (Publish s (events st1) h ctx data opts), emit (EvPublish h ctx data opts) st1)
            else (case ctx_Err s (events st1) ctx of
                    Some err \<Rightarrow> (Some (Inl err), st1)
                  | None \<Rightarrow> awaitPeers n s ctx h data opts (emit (EvSleep 100) st1)))
       \<and> PublishToTopic k s ctx topic data opts st = (None, idlePolls k h st0)
       \<and> filter isPublish (events (emit (EvListPeers h) (idlePolls k h st0))) = filter isPublish (events st)"
proof -
  have a: "awaitPeers (k + Suc n) s ctx h data opts st0 = awaitPeers (Suc n) s ctx h data opts (idlePolls k h st0)"
    using idle by (rule awaitPeers_idle)
  have b: "awaitPeers (k + 0) s ctx h data opts st0 = awaitPeers 0 s ctx h data opts (idlePolls k h st0)"
    using idle by (rule awaitPeers_idle)
  have c: "filter isPublish (events st0) = filter isPublish (events st)"
    using join by (rule JoinTopic_publishes)
  show ?thesis
    using a b c by (simp add: PublishToTopic_def join Let_def idlePolls_events)
qed

theorem PublishToTopic_polls_witness:
  "JoinTopic cancelledService ''t'' [] emptyState = (Inr 41, snd (JoinTopic cancelledService ''t'' [] emptyState))
   \<and> idle cancelledService Background 41 (idlePolls 0 41 (snd (JoinTopic cancelledService ''t'' [] emptyState)))
   \<and> idle cancelledService Background 41 (idlePolls 1 41 (snd (JoinTopic cancelledService ''t'' [] emptyState)))
   \<and> PublishToTopic 5 cancelledService Background ''t'' [9] [] emptyState =
       (Some (Inl (ErrExternal ''context deadline exceeded'')),
        \<lparr>events = [EvJoin ''t'' [], EvListPeers 41, EvSleep 100, EvListPeers 41, EvSleep 100, EvListPeers 41],
         joinedTopics = [''t'' \<mapsto> 41]\<rparr>)
   \<and> PublishToTopic 5 demoService Background ''t'' [9] [] emptyState =
       (Some (Inr ()),
        \<lparr>events = [EvJoin ''t'' [], EvListPeers 41, EvSleep 100, EvListPeers 41, EvSleep 100, EvListPeers 41,
                   EvPublish 41 Background [9] []],
         joinedTopics = [''t'' \<mapsto> 41]\<rparr>)"
proof -
  let ?st0 = "snd (JoinTopic cancelledService ''t'' [] emptyState)"
  have j: "JoinTopic cancelledService ''t'' [] emptyState = (Inr 41, ?st0)"
    by (simp add: p2p_run)
  have i0: "idle cancelledService Background 41 (idlePolls 0 41 ?st0)"
    by (simp add: idle_def p2p_run)
  have i1: "idle cancelledService Background 41 (idlePolls 1 41 ?st0)"
    by (simp add: idle_def p2p_run)
  have i: "\<forall>i<2. idle cancelledService Background 41 (idlePolls i 41 ?st0)"
    using i0 i1 by (auto simp: less_Suc_eq numeral_2_eq_2)
  let ?st0' = "snd (JoinTopic demoService ''t'' [] emptyState)"
  have j': "JoinTopic demoService ''t'' [] emptyState = (Inr 41, ?st0')"
    by (simp add: p2p_run)
  have i': "\<forall>i<2. idle demoService Background 41 (idlePolls i 41 ?st0')"
    by (auto simp: less_Suc_eq numeral_2_eq_2 idle_def p2p_run)
  from PublishToTopic_polls [OF j i, of 2 "[9]" "[]"] PublishToTopic_polls [OF j' i', of 2 "[9]" "[]"] j i0 i1
  show ?thesis by (simp add: p2p_run numeral_2_eq_2)
qed

section \<open>The message identifier\<close>

text \<open>
  Claim C6. For a hash with 32 bytes of output, \<^verbatim>\<open>msgIDFunction\<close> is the identifier of
  the specification: the first 20 bytes of the hash of the valid-snappy domain and
  the decompressed bytes when decompression succeeds, and of the invalid-snappy
  domain and the raw bytes when it fails. The identifier has 20 bytes, and two
  messages with the same data have the same identifier, whatever their other fields.
\<close>

theorem msgIDFunction_spec:
  assumes "\<forall>x. length (hashutil_Hash x) = 32"
  shows "msgIDFunction snappy_Decode hashutil_Hash ncfg pmsg =
           spec_MessageIdentifier_id snappy_Decode hashutil_Hash
             (MessageDomainValidSnappy ncfg) (MessageDomainInvalidSnappy ncfg) (Data pmsg)
       \<and> length (msgIDFunction snappy_Decode hashutil_Hash ncfg pmsg) = 20
       \<and> (Data pmsg' = Data pmsg \<longrightarrow>
            msgIDFunction snappy_Decode hashutil_Hash ncfg pmsg' =
            msgIDFunction snappy_Decode hashutil_Hash ncfg pmsg)"
  using assms
  by (auto simp: msgIDFunction_def spec_MessageIdentifier_id_def Let_def split: sum.splits)

theorem msgIDFunction_spec_witness:
  "(\<forall>x. length (toyHash x) = 32)
   \<and> toyDecode [2, 5, 6] = Inr [5, 6]
   \<and> msgIDFunction toyDecode toyHash demoNetwork \<lparr>Data = [2, 5, 6]\<rparr> =
       [12, 13, 14, 15, 16, 17, 18, 19, 20, 21, 22, 23, 24, 25, 26, 27, 28, 29, 30, 31]
   \<and> toyDecode [5, 6] = Inl (ErrExternal ''corrupt input'')
   \<and> msgIDFunction toyDecode toyHash demoNetwork \<lparr>Data = [5, 6]\<rparr> =
       [11, 12, 13, 14, 15, 16, 17, 18, 19, 20, 21, 22, 23, 24, 25, 26, 27, 28, 29, 30]
   \<and> length (msgIDFunction toyDecode toyHash demoNetwork \<lparr>Data = [5, 6]\<rparr>) = 20"
proof -
  have h: "\<forall>x. length (toyHash x) = 32" by (simp add: toyHash_def)
  have e1: "toyDecode [2, 5, 6] = Inr [5, 6]" "toyDecode [5, 6] = Inl (ErrExternal ''corrupt input'')"
    by (simp_all add: toyDecode_def)
  have e2: "msgIDFunction toyDecode toyHash demoNetwork \<lparr>Data = [2, 5, 6]\<rparr> =
       [12, 13, 14, 15, 16, 17, 18, 19, 20, 21, 22, 23, 24, 25, 26, 27, 28, 29, 30, 31]"
    by (simp add: msgIDFunction_def e1 toyHash_def demoNetwork_def Let_def)
  have e3: "msgIDFunction toyDecode toyHash demoNetwork \<lparr>Data = [5, 6]\<rparr> =
       [11, 12, 13, 14, 15, 16, 17, 18, 19, 20, 21, 22, 23, 24, 25, 26, 27, 28, 29, 30]"
    by (simp add: msgIDFunction_def e1 toyHash_def demoNetwork_def Let_def)
  from msgIDFunction_spec [OF h, of toyDecode demoNetwork "\<lparr>Data = [5, 6]\<rparr>"]
  have "length (msgIDFunction toyDecode toyHash demoNetwork \<lparr>Data = [5, 6]\<rparr>) = 20"
    by (rule conjunct2 [THEN conjunct1])
  with h e1 e2 e3 show ?thesis by simp
qed

section \<open>The broadcaster\<close>

text \<open>
  Claim C8. When the fork digest is available and the type of the message is not in
  \<^verbatim>\<open>GossipTypeMapping\<close>, \<^verbatim>\<open>Broadcast\<close> returns \<^verbatim>\<open>ErrMessageNotMapped\<close>, and the only event
  of the call is the look-up of the fork digest: nothing is encoded and nothing is
  published.
\<close>

theorem Broadcast_not_mapped:
  assumes "forkDigest s (events st) = Inr digest"
      and "GossipTypeMapping s (typeName msg) = None"
  shows "Broadcast fuel cfg s ctx msg st = (Some (Inl ErrMessageNotMapped), emit EvForkDigest st)
       \<and> filter isEncode (events (snd (Broadcast fuel cfg s ctx msg st))) = filter isEncode (events st)
       \<and> filter isPublish (events (snd (Broadcast fuel cfg s ctx msg st))) = filter isPublish (events st)"
  using assms by (simp add: Broadcast_def Let_def)

theorem Broadcast_not_mapped_witness:
  "forkDigest demoService (events emptyState) = Inr [1, 2, 3, 4]
   \<and> GossipTypeMapping demoService (typeName unmappedMessage) = None
   \<and> Broadcast 5 mainnet demoService (Caller []) unmappedMessage emptyState =
       (Some (Inl ErrMessageNotMapped), \<lparr>events = [EvForkDigest], joinedTopics = Map.empty\<rparr>)"
proof -
  have h1: "forkDigest demoService (events emptyState) = Inr [1, 2, 3, 4]"
    by (simp add: p2p_run)
  have h2: "GossipTypeMapping demoService (typeName unmappedMessage) = None"
    by (simp add: p2p_run)
  from Broadcast_not_mapped [OF h1 h2, of 5 mainnet "Caller []"] h1 h2 show ?thesis
    by (simp add: emit_def emptyState_def)
qed

text \<open>
  Claim C9. \<^verbatim>\<open>BroadcastAttestation\<close> returns an error exactly when the fork digest cannot
  be resolved, namely that error wrapped, and then no \<^verbatim>\<open>go\<close> statement is run. When the
  digest is resolved it returns \<^verbatim>\<open>nil\<close> after starting the detached call with that
  digest. In both cases the call itself encodes nothing, publishes nothing and
  searches for no peer, and what it returns does not depend on the encoder, the
  transport, the contexts or subnet discovery, whose errors can therefore not reach
  the caller.
\<close>

theorem BroadcastAttestation_result:
  "(\<forall>err. forkDigest s (events st) = Inl err \<longrightarrow>
        BroadcastAttestation s ctx subnet att st =
          (Inl (ErrWrap err ''could not retrieve fork digest''), emit EvForkDigest st))
   \<and> (\<forall>digest. forkDigest s (events st) = Inr digest \<longrightarrow>
        BroadcastAttestation s ctx subnet att st =
          (Inr (), emit (EvGo ctx subnet att digest) (emit EvForkDigest st)))
   \<and> isl (fst (BroadcastAttestation s ctx subnet att st)) = isl (forkDigest s (events st))
   \<and> length (filter isGo (events (snd (BroadcastAttestation s ctx subnet att st)))) =
       length (filter isGo (events st)) + (if isl (forkDigest s (events st)) then 0 else 1)
   \<and> filter isEncode (events (snd (BroadcastAttestation s ctx subnet att st))) = filter isEncode (events st)
   \<and> filter isPublish (events (snd (BroadcastAttestation s ctx subnet att st))) = filter isPublish (events st)
   \<and> filter isFindPeers (events (snd (BroadcastAttestation s ctx subnet att st))) =
       filter isFindPeers (events st)
   \<and> fst (BroadcastAttestation
            (s\<lparr>EncodeGossip := enc, pubsub_Join := join, ListPeers := lp, Publish := pub,
               ctx_Err := cerr, hasPeerWithSubnet := hp, FindPeersWithSubnet := fp\<rparr>)
            ctx subnet att st)
       = fst (BroadcastAttestation s ctx subnet att st)"
  by (auto simp: BroadcastAttestation_def split: sum.splits)

theorem BroadcastAttestation_result_witness:
  "BroadcastAttestation noDigestService (Caller []) 3 attestation emptyState =
     (Inl (ErrWrap (ErrExternal ''genesis not set'') ''could not retrieve fork digest''),
      \<lparr>events = [EvForkDigest], joinedTopics = Map.empty\<rparr>)
   \<and> BroadcastAttestation demoService (Caller []) 3 attestation emptyState =
     (Inr (), \<lparr>events = [EvForkDigest, EvGo (Caller []) 3 attestation [1, 2, 3, 4]], joinedTopics = Map.empty\<rparr>)"
proof -
  have h1: "forkDigest noDigestService (events emptyState) = Inl (ErrExternal ''genesis not set'')"
    by (simp add: p2p_run)
  have h2: "forkDigest demoService (events emptyState) = Inr [1, 2, 3, 4]"
    by (simp add: p2p_run)
  from BroadcastAttestation_result [where s = noDigestService and st = emptyState and ctx = "Caller []"
         and subnet = 3 and att = attestation]
       BroadcastAttestation_result [where s = demoService and st = emptyState and ctx = "Caller []"
         and subnet = 3 and att = attestation] h1 h2
  show ?thesis by (simp add: emit_def emptyState_def)
qed

lemma discover_events:
  "\<exists>disc. events (snd (discoverSubnetPeers s ctx subnet i st)) = events st @ disc
     \<and> joinedTopics (snd (discoverSubnetPeers s ctx subnet i st)) = joinedTopics st
     \<and> length (filter isFindPeers disc) \<le> maxSubnetDiscoveryAttempts - i
     \<and> filter isEncode disc = [] \<and> filter isJoin disc = []
     \<and> filter isListPeers disc = [] \<and> filter isPublish disc = []"
proof (induction s ctx subnet i st rule: discoverSubnetPeers.induct)
  case (1 s ctx subnet i st)
  show ?case
  proof (cases "i < maxSubnetDiscoveryAttempts")
    case False
    then have "discoverSubnetPeers s ctx subnet i st = (Inl ErrFailedToFindPeers, st)"
      by (subst discoverSubnetPeers.simps) simp
    then show ?thesis by simp
  next
    case lt: True
    show ?thesis
    proof (cases "ctx_Err s (events st) ctx")
      case (Some err)
      with lt have "discoverSubnetPeers s ctx subnet i st = (Inl err, st)"
        by (subst discoverSubnetPeers.simps) simp
      then show ?thesis by simp
    next
      case None
      show ?thesis
      proof (cases "FindPeersWithSubnet s (events st) ctx subnet")
        case (Inl err)
        with lt None have "discoverSubnetPeers s ctx subnet i st =
            (Inl err, emit (EvFindPeersWithSubnet ctx subnet) st)"
          by (subst discoverSubnetPeers.simps) simp
        with lt show ?thesis by simp
      next
        case (Inr ok)
        show ?thesis
        proof (cases ok)
          case True
          with lt None Inr have "discoverSubnetPeers s ctx subnet i st =
              (Inr (), emit (EvInc ''savedAttestationBroadcasts'')
                         (emit (EvFindPeersWithSubnet ctx subnet) st))"
            by (subst discoverSubnetPeers.simps) simp
          with lt show ?thesis by simp
        next
          case False
          let ?st' = "emit (EvFindPeersWithSubnet ctx subnet) st"
          from "1.IH" [OF lt None Inr] False obtain disc where
            d: "events (snd (discoverSubnetPeers s ctx subnet (i + 1) ?st')) = events ?st' @ disc"
               "joinedTopics (snd (discoverSubnetPeers s ctx subnet (i + 1) ?st')) = joinedTopics ?st'"
               "length (filter isFindPeers disc) \<le> maxSubnetDiscoveryAttempts - (i + 1)"
               "filter isEncode disc = []" "filter isJoin disc = []"
               "filter isListPeers disc = []" "filter isPublish disc = []"
            by blast
          have eq: "discoverSubnetPeers s ctx subnet i st = discoverSubnetPeers s ctx subnet (i + 1) ?st'"
            using lt None Inr False by (subst discoverSubnetPeers.simps) simp
          show ?thesis
            apply (rule exI [of _ "EvFindPeersWithSubnet ctx subnet # disc"])
            using d lt by (simp add: eq)
        qed
      qed
    qed
  qed
qed

lemma awaitPeers_events:
  "\<exists>rest. events (snd (awaitPeers n s ctx h data opts st)) = events st @ rest
     \<and> filter isFindPeers rest = [] \<and> filter isEncode rest = [] \<and> length (filter isPublish rest) \<le> 1
     \<and> (n = 0 \<or> (\<exists>tail. rest = EvListPeers h # tail))"
proof (induction n arbitrary: st)
  case 0
  show ?case by simp
next
  case (Suc n)
  show ?case
  proof (cases "ListPeers s (events st) h = []")
    case False
    then show ?thesis by (simp add: Let_def)
  next
    case True
    show ?thesis
    proof (cases "ctx_Err s (events st @ [EvListPeers h]) ctx")
      case (Some err)
      with True show ?thesis by (simp add: Let_def)
    next
      case None
      let ?st' = "emit (EvSleep 100) (emit (EvListPeers h) st)"
      from Suc.IH [of ?st'] obtain rest where
        r: "events (snd (awaitPeers n s ctx h data opts ?st')) = events ?st' @ rest"
           "filter isFindPeers rest = []" "filter isEncode rest = []" "length (filter isPublish rest) \<le> 1"
        by blast
      show ?thesis
        apply (rule exI [of _ "EvListPeers h # EvSleep 100 # rest"])
        using r True None by (simp add: Let_def)
    qed
  qed
qed

text \<open>
  What a call of \<^verbatim>\<open>PublishToTopic\<close> adds to the events: no discovery, no encoding, at
  most one publish; and it starts with the \<^verbatim>\<open>pubsub.Join\<close> of a topic not yet joined,
  or with the first poll of the mesh of a topic that is.
\<close>

lemma PublishToTopic_events:
  "\<exists>rest. events (snd (PublishToTopic n s ctx topic data opts st)) = events st @ rest
     \<and> filter isFindPeers rest = [] \<and> filter isEncode rest = [] \<and> length (filter isPublish rest) \<le> 1
     \<and> (n = 0 \<or> (\<exists>tail. rest =
           (case joinedTopics st topic of None \<Rightarrow> EvJoin topic [] | Some h \<Rightarrow> EvListPeers h) # tail))"
proof (cases "joinedTopics st topic")
  case (Some h)
  then have j: "JoinTopic s topic [] st = (Inr h, st)" by (simp add: JoinTopic_def)
  from awaitPeers_events [of n s ctx h data opts st] obtain rest where
    "events (snd (awaitPeers n s ctx h data opts st)) = events st @ rest"
    "filter isFindPeers rest = []" "filter isEncode rest = []" "length (filter isPublish rest) \<le> 1"
    "n = 0 \<or> (\<exists>tail. rest = EvListPeers h # tail)"
    by blast
  then show ?thesis using Some j by (intro exI [of _ rest]) (simp add: PublishToTopic_def)
next
  case None
  show ?thesis
  proof (cases "pubsub_Join s (events st) topic []")
    case (Inl err)
    with None show ?thesis by (simp add: PublishToTopic_def JoinTopic_def)
  next
    case (Inr h)
    let ?st0 = "emit (EvJoin topic []) (st\<lparr>joinedTopics := (joinedTopics st)(topic \<mapsto> h)\<rparr>)"
    from None Inr have j: "JoinTopic s topic [] st = (Inr h, ?st0)" by (simp add: JoinTopic_def)
    from awaitPeers_events [of n s ctx h data opts ?st0] obtain rest where
      "events (snd (awaitPeers n s ctx h data opts ?st0)) = events ?st0 @ rest"
      "filter isFindPeers rest = []" "filter isEncode rest = []" "length (filter isPublish rest) \<le> 1"
      by blast
    then show ?thesis using None j
      by (intro exI [of _ "EvJoin topic [] # rest"]) (simp add: PublishToTopic_def)
  qed
qed

text \<open>
  Claim C4, as the code has it. Let the detached \<^verbatim>\<open>broadcastAttestation\<close> find no known
  peer on the subnet. Then, for any number of polls observed and whatever the
  collaborators answer, it runs the peer check and the counter of attempts, then a
  discovery phase with at most \<open>maxSubnetDiscoveryAttempts = 3\<close> calls of
  \<^verbatim>\<open>FindPeersWithSubnet\<close> that encodes, joins, polls and publishes nothing, and then,
  whether discovery found a peer, found none, failed or ran out of time, encodes the
  attestation exactly once. When the encoding succeeds the rest of the run is
  exactly one call of \<^verbatim>\<open>PublishToTopic\<close> on the subnet topic with the encoded bytes: it
  opens with the join of the topic, or with a poll of its mesh when the topic is
  joined already, never searches or encodes again and publishes at most once. When
  the encoding fails the run ends there and nothing is joined, polled or published.
\<close>

theorem broadcastAttestation_discovery_then_publish:
  assumes "\<not> hasPeerWithSubnet s (events st) subnet"
  shows "\<exists>st2 disc rest.
     events st2 = events st @ EvHasPeerWithSubnet subnet # EvInc ''attestationBroadcastAttempts'' # disc
   \<and> joinedTopics st2 = joinedTopics st
   \<and> length (filter isFindPeers disc) \<le> maxSubnetDiscoveryAttempts
   \<and> maxSubnetDiscoveryAttempts = 3
   \<and> filter isEncode disc = [] \<and> filter isJoin disc = []
   \<and> filter isListPeers disc = [] \<and> filter isPublish disc = []
   \<and> broadcastAttestation fuel cfg s ctx subnet att digest st =
       (case EncodeGossip s att of
          Inl err \<Rightarrow> (Some (), emit (EvEncodeGossip att) st2)
        | Inr buf \<Rightarrow>
            (case PublishToTopic fuel s
                    (WithValue (WithTimeout Background (1 * SlotsPerEpoch cfg * SecondsPerSlot cfg))
                       ''x-request-key'' (ctx_Value ctx ''x-request-key''))
                    (attestationToTopic s subnet digest @ ProtocolSuffix s) buf []
                    (emit (EvEncodeGossip att) st2) of
               (None, st3) \<Rightarrow> (None, st3)
             | (Some r, st3) \<Rightarrow> (Some (), st3)))
   \<and> events (snd (broadcastAttestation fuel cfg s ctx subnet att digest st)) =
       events st2 @ EvEncodeGossip att # rest
   \<and> filter isFindPeers rest = [] \<and> filter isEncode rest = []
   \<and> length (filter isPublish rest) \<le> 1
   \<and> (case EncodeGossip s att of
         Inl err \<Rightarrow> rest = []
       | Inr buf \<Rightarrow>
           fuel = 0 \<or>
           (\<exists>tail. rest =
              (case joinedTopics st (attestationToTopic s subnet digest @ ProtocolSuffix s) of
                 None \<Rightarrow> EvJoin (attestationToTopic s subnet digest @ ProtocolSuffix s) []
               | Some h \<Rightarrow> EvListPeers h) # tail))"
proof -
  let ?ctx' = "WithTimeout Background (1 * SlotsPerEpoch cfg * SecondsPerSlot cfg)"
  let ?st1 = "emit (EvInc ''attestationBroadcastAttempts'') (emit (EvHasPeerWithSubnet subnet) st)"
  let ?st2 = "snd (discoverSubnetPeers s ?ctx' subnet 0 ?st1)"
  let ?ctx'' = "WithValue ?ctx' ''x-request-key'' (ctx_Value ctx ''x-request-key'')"
  let ?topic = "attestationToTopic s subnet digest @ ProtocolSuffix s"
  let ?st3 = "emit (EvEncodeGossip att) ?st2"
  from discover_events [of s ?ctx' subnet 0 ?st1] obtain disc where
    d: "events ?st2 = events ?st1 @ disc" "joinedTopics ?st2 = joinedTopics st"
       "length (filter isFindPeers disc) \<le> maxSubnetDiscoveryAttempts"
       "filter isEncode disc = []" "filter isJoin disc = []"
       "filter isListPeers disc = []" "filter isPublish disc = []"
    by auto
  have run: "broadcastAttestation fuel cfg s ctx subnet att digest st =
      (case broadcastObject fuel s ?ctx'' att (attestationToTopic s subnet digest) ?st2 of
         (None, st3) \<Rightarrow> (None, st3) | (Some r, st3) \<Rightarrow> (Some (), st3))"
    using assms by (simp add: broadcastAttestation_def Let_def)
  show ?thesis
  proof (cases "EncodeGossip s att")
    case (Inl err)
    with run have e: "broadcastAttestation fuel cfg s ctx subnet att digest st = (Some (), ?st3)"
      by (simp add: broadcastObject_def)
    show ?thesis
      apply (rule exI [of _ ?st2])
      apply (rule exI [of _ disc])
      apply (rule exI [of _ "[]"])
      using Inl d e by (simp add: maxSubnetDiscoveryAttempts_def)
  next
    case (Inr buf)
    obtain r st4 where p: "PublishToTopic fuel s ?ctx'' ?topic buf [] ?st3 = (r, st4)"
      by (cases "PublishToTopic fuel s ?ctx'' ?topic buf [] ?st3")
    from PublishToTopic_events [of fuel s ?ctx'' ?topic buf "[]" ?st3] p d(2) obtain rest where
      r: "events st4 = events ?st3 @ rest"
         "filter isFindPeers rest = []" "filter isEncode rest = []" "length (filter isPublish rest) \<le> 1"
         "fuel = 0 \<or> (\<exists>tail. rest =
            (case joinedTopics st ?topic of None \<Rightarrow> EvJoin ?topic [] | Some h \<Rightarrow> EvListPeers h) # tail)"
      by auto
    from run Inr p have eq: "broadcastAttestation fuel cfg s ctx subnet att digest st =
        (case r of None \<Rightarrow> (None, st4) | Some x \<Rightarrow> (Some (), st4))"
      by (cases r) (auto simp: broadcastObject_def split: sum.splits)
    then have sn: "snd (broadcastAttestation fuel cfg s ctx subnet att digest st) = st4"
      by (cases r) simp_all
    have full: "broadcastAttestation fuel cfg s ctx subnet att digest st =
        (case PublishToTopic fuel s ?ctx'' ?topic buf [] ?st3 of
           (None, st3) \<Rightarrow> (None, st3) | (Some r, st3) \<Rightarrow> (Some (), st3))"
      using eq p by (cases r) simp_all
    show ?thesis
      apply (rule exI [of _ ?st2])
      apply (rule exI [of _ disc])
      apply (rule exI [of _ rest])
      using Inr d r sn full by (simp add: maxSubnetDiscoveryAttempts_def)
  qed
qed

text \<open>
  Two runs in which the second discovery attempt finds a peer and a mesh peer shows
  up at the third poll: one from a state with no topic joined, which joins the
  topic first, and one from a state with the topic joined, which goes straight to
  polling. Both publish once.
\<close>

theorem broadcastAttestation_discovery_then_publish_witness:
  "\<not> hasPeerWithSubnet demoService (events emptyState) 3
   \<and> broadcastAttestation 5 mainnet demoService (Caller []) 3 attestation [1, 2, 3, 4] emptyState =
      (Some (),
       \<lparr>events =
          [EvHasPeerWithSubnet 3, EvInc ''attestationBroadcastAttempts'',
           EvFindPeersWithSubnet (WithTimeout Background 384) 3,
           EvFindPeersWithSubnet (WithTimeout Background 384) 3,
           EvInc ''savedAttestationBroadcasts'',
           EvEncodeGossip attestation,
           EvJoin ''/eth2/%x/beacon_attestation_%d/ssz_snappy'' [],
           EvListPeers 41, EvSleep 100, EvListPeers 41, EvSleep 100, EvListPeers 41,
           EvPublish 41 (WithValue (WithTimeout Background 384) ''x-request-key'' None) [10, 20, 30] []],
        joinedTopics = [''/eth2/%x/beacon_attestation_%d/ssz_snappy'' \<mapsto> 41]\<rparr>)
   \<and> \<not> hasPeerWithSubnet demoService (events joinedState) 3
   \<and> broadcastAttestation 5 mainnet demoService (Caller []) 3 attestation [1, 2, 3, 4] joinedState =
      (Some (),
       \<lparr>events =
          [EvHasPeerWithSubnet 3, EvInc ''attestationBroadcastAttempts'',
           EvFindPeersWithSubnet (WithTimeout Background 384) 3,
           EvFindPeersWithSubnet (WithTimeout Background 384) 3,
           EvInc ''savedAttestationBroadcasts'',
           EvEncodeGossip attestation,
           EvListPeers 7, EvSleep 100, EvListPeers 7, EvSleep 100, EvListPeers 7,
           EvPublish 7 (WithValue (WithTimeout Background 384) ''x-request-key'' None) [10, 20, 30] []],
        joinedTopics = [''/eth2/%x/beacon_attestation_%d/ssz_snappy'' \<mapsto> 7]\<rparr>)"
proof -
  have h: "\<not> hasPeerWithSubnet demoService (events emptyState) 3"
    by (simp add: demoService_def)
  have h': "\<not> hasPeerWithSubnet demoService (events joinedState) 3"
    by (simp add: demoService_def)
  have a: "broadcastAttestation 5 mainnet demoService (Caller []) 3 attestation [1, 2, 3, 4] emptyState =
      (Some (),
       \<lparr>events =
          [EvHasPeerWithSubnet 3, EvInc ''attestationBroadcastAttempts'',
           EvFindPeersWithSubnet (WithTimeout Background 384) 3,
           EvFindPeersWithSubnet (WithTimeout Background 384) 3,
           EvInc ''savedAttestationBroadcasts'',
           EvEncodeGossip attestation,
           EvJoin ''/eth2/%x/beacon_attestation_%d/ssz_snappy'' [],
           EvListPeers 41, EvSleep 100, EvListPeers 41, EvSleep 100, EvListPeers 41,
           EvPublish 41 (WithValue (WithTimeout Background 384) ''x-request-key'' None) [10, 20, 30] []],
        joinedTopics = [''/eth2/%x/beacon_attestation_%d/ssz_snappy'' \<mapsto> 41]\<rparr>)"
    using broadcastAttestation_discovery_then_publish
            [OF h, of 5 mainnet "Caller []" attestation "[1, 2, 3, 4]"]
    by (simp add: p2p_run)
  have b: "broadcastAttestation 5 mainnet demoService (Caller []) 3 attestation [1, 2, 3, 4] joinedState =
      (Some (),
       \<lparr>events =
          [EvHasPeerWithSubnet 3, EvInc ''attestationBroadcastAttempts'',
           EvFindPeersWithSubnet (WithTimeout Background 384) 3,
           EvFindPeersWithSubnet (WithTimeout Background 384) 3,
           EvInc ''savedAttestationBroadcasts'',
           EvEncodeGossip attestation,
           EvListPeers 7, EvSleep 100, EvListPeers 7, EvSleep 100, EvListPeers 7,
           EvPublish 7 (WithValue (WithTimeout Background 384) ''x-request-key'' None) [10, 20, 30] []],
        joinedTopics = [''/eth2/%x/beacon_attestation_%d/ssz_snappy'' \<mapsto> 7]\<rparr>)"
    using broadcastAttestation_discovery_then_publish
            [OF h', of 5 mainnet "Caller []" attestation "[1, 2, 3, 4]"]
    by (simp add: p2p_run)
  from h h' a b show ?thesis by simp
qed

text \<open>
  An encoder that refuses the attestation, no known peer on the subnet, and a second
  discovery attempt that finds one: the run ends with the failed encoding. The topic
  is not joined, its mesh is not polled and nothing is published, so no publish is
  attempted after discovery.
\<close>

theorem broadcastAttestation_discovery_then_publish_counterexample:
  "\<not> hasPeerWithSubnet brokenEncoderService (events emptyState) 3
   \<and> EncodeGossip brokenEncoderService attestation = Inl (ErrExternal ''message too large'')
   \<and> broadcastAttestation 5 mainnet brokenEncoderService (Caller []) 3 attestation [1, 2, 3, 4]
        emptyState =
      (Some (),
       \<lparr>events =
          [EvHasPeerWithSubnet 3, EvInc ''attestationBroadcastAttempts'',
           EvFindPeersWithSubnet (WithTimeout Background 384) 3,
           EvFindPeersWithSubnet (WithTimeout Background 384) 3,
           EvInc ''savedAttestationBroadcasts'',
           EvEncodeGossip attestation],
        joinedTopics = Map.empty\<rparr>)
   \<and> filter isJoin (events (snd (broadcastAttestation 5 mainnet brokenEncoderService (Caller []) 3
        attestation [1, 2, 3, 4] emptyState))) = []
   \<and> filter isListPeers (events (snd (broadcastAttestation 5 mainnet brokenEncoderService (Caller []) 3
        attestation [1, 2, 3, 4] emptyState))) = []
   \<and> filter isPublish (events (snd (broadcastAttestation 5 mainnet brokenEncoderService (Caller []) 3
        attestation [1, 2, 3, 4] emptyState))) = []"
  by (simp add: p2p_run)

end
